theory Spec2Isabelle
  imports
    Main
    "HOL-Library.Multiset"
    "HOL-Library.Char_ord"
    "HOL-Library.List_Lexorder"
    "HOL-Library.Product_Lexorder"
begin

section \<open>The MeetAI extension: ASR client, renderer client and tools\<close>

text \<open>
  The development embeds three TypeScript modules of the extension:
  the ASR client (\<^verbatim>\<open>asr-client.ts\<close>: \<^verbatim>\<open>checkAudioFile\<close>, \<^verbatim>\<open>generateSignature\<close>,
  \<^verbatim>\<open>uploadAudio\<close>, \<^verbatim>\<open>pollResult\<close>, \<^verbatim>\<open>parseTranscript\<close>, \<^verbatim>\<open>transcribe\<close>), the renderer
  client (\<^verbatim>\<open>renderer-client.ts\<close>: \<^verbatim>\<open>renderMarkmap\<close>) and two tools of \<^verbatim>\<open>tools.ts\<close>
  (\<^verbatim>\<open>meeting_summarize\<close>, \<^verbatim>\<open>meeting_mindmap\<close>).

  Conventions of the embedding.
  \<^item> A JavaScript string is the \<^typ>\<open>string\<close> of its UTF-8 bytes (an ASCII string is its
    characters). Where the source orders strings (\<^verbatim>\<open>Array.prototype.sort\<close>), the order is
    that of their UTF-16 code units, which the model computes from the bytes.
  \<^item> An optional property (\<^verbatim>\<open>x?: T\<close>, or a JSON field that may be absent) is a
    \<^typ>\<open>'a option\<close>; \<^verbatim>\<open>None\<close> is \<^verbatim>\<open>undefined\<close>.
  \<^item> A thrown \<^verbatim>\<open>Error\<close> (a rejected promise) is a value of the datatype \<open>error\<close>, one
    constructor for each \<^verbatim>\<open>throw\<close> of the source, carrying the values its message
    interpolates. An \<^verbatim>\<open>async\<close> function returns its result paired with the list of
    effects (\<open>event\<close>) it performed, in order.
  \<^item> What the environment answers (the file system, the HTTP services, the clock, the
    random source, the host's LLM callback) is read from a record of the environment.
  \<^item> Functions of the JavaScript runtime and of Node that the source calls but does not
    define (\<^verbatim>\<open>encodeURIComponent\<close>, \<^verbatim>\<open>crypto.createHmac\<close>, \<^verbatim>\<open>path.extname\<close>, ...) are
    fields of the record \<open>runtime\<close>; every theorem holds for every runtime.
\<close>

subsection \<open>The runtime\<close>

record runtime =
  encodeURIComponent :: "string \<Rightarrow> string"
  \<comment> \<open>\<^verbatim>\<open>crypto.createHmac("sha1", key).update(data).digest("base64")\<close>, as
     \<open>hmac_sha1_base64 key data\<close>\<close>
  hmac_sha1_base64 :: "string \<Rightarrow> string \<Rightarrow> string"
  extname :: "string \<Rightarrow> string"
  basename :: "string \<Rightarrow> string"
  path_resolve :: "string \<Rightarrow> string"
  path_join :: "string \<Rightarrow> string \<Rightarrow> string"
  toLowerCase :: "string \<Rightarrow> string"
  trim :: "string \<Rightarrow> string"
  \<comment> \<open>\<^verbatim>\<open>Buffer.from(s, "base64")\<close>\<close>
  buffer_from_base64 :: "string \<Rightarrow> string"

subsection \<open>Strings and parameter objects\<close>

text \<open>\<^verbatim>\<open>Array.prototype.join\<close> on an array of strings.\<close>

fun join :: "string \<Rightarrow> string list \<Rightarrow> string" where
  "join sep [] = []"
| "join sep [x] = x"
| "join sep (x # y # ys) = x @ sep @ join sep (y # ys)"

text \<open>\<^verbatim>\<open>String.prototype.endsWith\<close> and \<^verbatim>\<open>String.prototype.includes\<close>.\<close>

definition endsWith :: "string \<Rightarrow> string \<Rightarrow> bool" where
  "endsWith s t = (length t \<le> length s \<and> drop (length s - length t) s = t)"

fun includes_str :: "string \<Rightarrow> string \<Rightarrow> bool" where
  "includes_str [] t = (t = [])"
| "includes_str (c # cs) t = (take (length t) (c # cs) = t \<or> includes_str cs t)"

text \<open>
  A \<^verbatim>\<open>Record<string, string>\<close> is the list of its entries in the order \<^verbatim>\<open>Object.keys\<close>
  enumerates them; an object has each key once, so the keys of such a list are distinct.
  \<open>param_get\<close> is the property read \<^verbatim>\<open>params[k]\<close>.
\<close>

type_synonym params = "(string \<times> string) list"

definition object_keys :: "params \<Rightarrow> string list" where
  "object_keys ps = map fst ps"

definition param_get :: "params \<Rightarrow> string \<Rightarrow> string option" where
  "param_get ps k = map_of ps k"

text \<open>Truthiness of a value that is a string or \<^verbatim>\<open>undefined\<close>; \<^verbatim>\<open>v || d\<close> on such a value.\<close>

definition truthy :: "string option \<Rightarrow> bool" where
  "truthy v = (case v of None \<Rightarrow> False | Some s \<Rightarrow> s \<noteq> [])"

definition or_else :: "string option \<Rightarrow> string \<Rightarrow> string" where
  "or_else v d = (case v of None \<Rightarrow> d | Some s \<Rightarrow> if s = [] then d else s)"

text \<open>The template \<^verbatim>\<open>`${encodeURIComponent(k)}=${encodeURIComponent(params[k])}`\<close>;
  \<^verbatim>\<open>encodeURIComponent(undefined)\<close> encodes the string \<^verbatim>\<open>undefined\<close>.\<close>

definition encode_pair :: "runtime \<Rightarrow> params \<Rightarrow> string \<Rightarrow> string" where
  "encode_pair rt ps k =
     encodeURIComponent rt k @ ''='' @
     encodeURIComponent rt (case param_get ps k of None \<Rightarrow> ''undefined'' | Some v \<Rightarrow> v)"

subsection \<open>Strings: UTF-8 bytes, UTF-16 code units and the order of \<^verbatim>\<open>sort\<close>\<close>

text \<open>
  A \<^typ>\<open>string\<close> holds the UTF-8 bytes of a JavaScript string. JavaScript compares strings
  by their UTF-16 code units, which is not the order of the bytes: U+1F600 (bytes
  \<^verbatim>\<open>F0 9F 98 80\<close>, code units \<^verbatim>\<open>D83D DE00\<close>) comes before U+FF21 (bytes \<^verbatim>\<open>EF BC A1\<close>, code
  unit \<^verbatim>\<open>FF21\<close>). \<open>utf8_code_points\<close> decodes the bytes into code points (a byte that
  starts no sequence gives U+FFFD, as Node's decoder does), \<open>code_units\<close> gives the one or
  two code units of a code point, and \<open>utf16_units\<close> the code units of a string.
\<close>

definition continuation_byte :: "nat \<Rightarrow> bool" where
  "continuation_byte b = (0x80 \<le> b \<and> b < 0xC0)"

definition trail_length :: "nat \<Rightarrow> nat" where
  "trail_length b0 = (if b0 < 0xE0 then 1 else if b0 < 0xF0 then 2 else 3)"

definition lead_payload :: "nat \<Rightarrow> nat" where
  "lead_payload b0 =
     (if b0 < 0xE0 then b0 - 0xC0 else if b0 < 0xF0 then b0 - 0xE0 else b0 - 0xF0)"

function utf8_code_points :: "nat list \<Rightarrow> nat list" where
  "utf8_code_points [] = []"
| "utf8_code_points (b0 # bs) =
     (if b0 < 0x80 then b0 # utf8_code_points bs
      else if 0xC0 \<le> b0 \<and> b0 < 0xF8 \<and> trail_length b0 \<le> length bs \<and>
              list_all continuation_byte (take (trail_length b0) bs)
      then foldl (\<lambda>cp b. cp * 64 + (b - 0x80)) (lead_payload b0) (take (trail_length b0) bs) #
           utf8_code_points (drop (trail_length b0) bs)
      else 0xFFFD # utf8_code_points bs)"
  by pat_completeness auto
termination
  by (relation "measure length") auto

definition code_units :: "nat \<Rightarrow> nat list" where
  "code_units cp =
     (if cp < 0x10000 then [cp]
      else [0xD800 + (cp - 0x10000) div 0x400, 0xDC00 + (cp - 0x10000) mod 0x400])"

definition utf16_units :: "string \<Rightarrow> nat list" where
  "utf16_units s = concat (map code_units (utf8_code_points (map of_char s)))"

text \<open>
  \<^verbatim>\<open>Array.prototype.sort\<close> with no comparator, on an array of strings: ascending in the
  lexicographic order of the code units (a proper prefix first). A JavaScript string is
  its code units, so two different keys never compare equal; \<open>sort_rank\<close> pairs the code
  units of a key with the key itself, which changes nothing where the code units tell the
  keys apart (\<open>array_sort_code_units\<close> below) and keeps the order total on byte lists that
  are not UTF-8.
\<close>

definition sort_rank :: "string \<Rightarrow> nat list \<times> string" where
  "sort_rank k = (utf16_units k, k)"

definition array_sort :: "string list \<Rightarrow> string list" where
  "array_sort ks = sort_key sort_rank ks"

subsection \<open>The ASR client: configuration and request signing\<close>

record AsrConfig =
  serviceUrl :: string
  appid :: "string option"
  accessKeyId :: "string option"
  accessKeySecret :: "string option"

text \<open>
  An \<open>AsrConfig\<close> below is \<^verbatim>\<open>this.config\<close>, as the constructor has left it.

  \<^verbatim>\<open>generateSignature\<close> (asr-client.ts, lines 94-108). \<^verbatim>\<open>!this.config.accessKeySecret\<close> holds
  when the secret is absent and when it is the empty string.
\<close>

definition generateSignature :: "runtime \<Rightarrow> AsrConfig \<Rightarrow> params \<Rightarrow> string" where
  "generateSignature rt cfg ps =
     (if \<not> truthy (accessKeySecret cfg) then ''''
      else
        let sortedParams =
              join ''&''
                (map (encode_pair rt ps)
                  (array_sort (filter (\<lambda>k. k \<noteq> ''signature'' \<and> truthy (param_get ps k))
                    (object_keys ps))))
        in hmac_sha1_base64 rt (or_else (accessKeySecret cfg) '''') sortedParams)"

text \<open>
  The canonical string in the words of the specification: drop every parameter named
  \<^verbatim>\<open>signature\<close> or with an empty value, sort what remains by key (lexicographically in
  the code units of the keys, as JavaScript compares strings), URL-encode each key and
  value, join the \<^verbatim>\<open>key=value\<close> pairs with \<^verbatim>\<open>&\<close>.
\<close>

definition canonical_string :: "runtime \<Rightarrow> params \<Rightarrow> string" where
  "canonical_string rt ps =
     join ''&''
       (map (\<lambda>(k, v). encodeURIComponent rt k @ ''='' @ encodeURIComponent rt v)
         (sort_key (\<lambda>(k, v). sort_rank k)
           (filter (\<lambda>(k, v). k \<noteq> ''signature'' \<and> v \<noteq> []) ps)))"

subsection \<open>The ASR client: vendor responses, environment, effects and errors\<close>

text \<open>
  A value of a JSON field whose type the source does not fix (the order status).
\<close>

datatype jsvalue = JUndefined | JNull | JBoolean bool | JNumber int | JString string

text \<open>
  The JSON bodies of the ASR service, in the shape the source reads them:
  \<^verbatim>\<open>{code, descInfo?, content: {orderId, orderInfo: {status}, orderResult: {sentences}}}\<close>,
  each sentence \<^verbatim>\<open>{speakerId, text, beginTime, endTime}\<close>. Every field may be absent.
\<close>

record sentence =
  speakerId :: "string option"
  sentence_text :: "string option"
  beginTime :: "int option"
  sentence_endTime :: "int option"

record order_result =
  sentences :: "sentence list option"

record order_info =
  status :: jsvalue

record result_content =
  orderId :: "string option"
  orderInfo :: "order_info option"
  orderResult :: "order_result option"

record api_result =
  code :: "string option"
  descInfo :: "string option"
  content :: "result_content option"

text \<open>
  A \<^verbatim>\<open>fetch\<close> either rejects (a network failure) or resolves to a response;
  \<open>body_json\<close> is \<^verbatim>\<open>None\<close> when \<^verbatim>\<open>response.json()\<close> rejects.
\<close>

record response =
  ok :: bool
  http_status :: nat
  body_text :: string
  body_json :: "api_result option"

datatype fetch_outcome = Rejected string | Responded response

text \<open>\<^verbatim>\<open>fs.stat\<close>: a rejection with its \<^verbatim>\<open>code\<close>, or the \<^verbatim>\<open>Stats\<close> read by the source.\<close>

datatype stat_outcome = StatFailed string | Stats (isFile: bool) (file_size: nat)

text \<open>
  The environment of one call of the client: the file system; the clock
  (\<^verbatim>\<open>Date.now()\<close>, in milliseconds) and the random bytes (\<^verbatim>\<open>crypto.randomBytes(8)\<close>) read
  for the upload and for the poll attempt \<open>i\<close>; the outcome of the upload request and
  of the status query of attempt \<open>i\<close> (attempts count from 0); and the state of an
  abort signal of the caller when attempt \<open>i\<close> starts, which no function of the client
  takes or reads.
\<close>

record asr_env =
  fs_stat :: "string \<Rightarrow> stat_outcome"
  fs_readFile :: "string \<Rightarrow> string + string"
  upload_now :: nat
  upload_random :: "nat list"
  upload_fetch :: fetch_outcome
  poll_now :: "nat \<Rightarrow> nat"
  poll_random :: "nat \<Rightarrow> nat list"
  poll_fetch :: "nat \<Rightarrow> fetch_outcome"
  caller_aborted :: "nat \<Rightarrow> bool"

text \<open>The prompts sent to the host's LLM callback: a fixed template around a content.\<close>

datatype prompt = SummaryPrompt string | MindmapPrompt string

datatype request_body =
    UploadForm string string
  | EmptyJson
  | RenderJson string nat nat string

datatype event =
    FsStat string
  | FsReadFile string
  | FsMkdir string
  | FsWriteFile string string
  | Fetch string "(string \<times> string) list" request_body
  | SetTimeout nat
  | CallLLM prompt

text \<open>
  The errors, one constructor for each \<^verbatim>\<open>throw\<close> of the source and each rejection of
  the environment that the source lets through.
\<close>

datatype error =
    NotAFile string
  | UnsupportedFormat string
  | FileNotFound string
  | FsError string
  | FetchFailed string
  | InvalidJson
  | UploadHttpFailed nat string
  | UploadRejected "string option" string
  | MissingOrderId
  | QueryHttpFailed nat
  | QueryRejected "string option" string
  | UnexpectedStatus jsvalue
  | QueryTimeout nat
  | LLMUnavailable
  | LLMFailed string

type_synonym 'a io = "(error + 'a) \<times> event list"

text \<open>\<^verbatim>\<open>Number.prototype.toString\<close> on a natural number, and \<^verbatim>\<open>buf.toString("hex")\<close> on a
  buffer given as the list of its bytes, each below 256.\<close>

fun toString_nat :: "nat \<Rightarrow> string" where
  "toString_nat n =
     (if n < 10 then [''0123456789'' ! n]
      else toString_nat (n div 10) @ [''0123456789'' ! (n mod 10)])"

declare toString_nat.simps [simp del]

definition hex_lower :: "nat \<Rightarrow> char" where
  "hex_lower n = ''0123456789abcdef'' ! n"

definition toString_hex :: "nat list \<Rightarrow> string" where
  "toString_hex bytes = concat (map (\<lambda>b. [hex_lower (b div 16), hex_lower (b mod 16)]) bytes)"

text \<open>The fallback description \<^verbatim>\<open>result.descInfo || "..."\<close>, the UTF-8 bytes of the literal.\<close>

definition unknown_error_text :: string where
  "unknown_error_text =
     map char_of [0xE6, 0x9C, 0xAA, 0xE7, 0x9F, 0xA5, 0xE9, 0x94, 0x99, 0xE8, 0xAF, 0xAF :: nat]"

text \<open>The query string both requests build: every parameter, in the order of
  \<^verbatim>\<open>Object.keys\<close>, unsorted and unfiltered.\<close>

definition queryString :: "runtime \<Rightarrow> params \<Rightarrow> string" where
  "queryString rt ps = join ''&'' (map (encode_pair rt ps) (object_keys ps))"

subsection \<open>The ASR client: checking the audio file\<close>

text \<open>
  \<^verbatim>\<open>checkAudioFile\<close> (lines 72-89). The \<^verbatim>\<open>catch\<close> turns a rejection of \<^verbatim>\<open>fs.stat\<close> with code
  \<^verbatim>\<open>ENOENT\<close> into the error of a missing file and rethrows everything else, the two
  errors thrown inside the \<^verbatim>\<open>try\<close> included.
\<close>

definition checkAudioFile :: "runtime \<Rightarrow> asr_env \<Rightarrow> string \<Rightarrow> unit io" where
  "checkAudioFile rt env audioPath =
     (case fs_stat env audioPath of
        StatFailed c \<Rightarrow>
          (Inl (if c = ''ENOENT'' then FileNotFound audioPath else FsError c), [FsStat audioPath])
      | Stats is_file sz \<Rightarrow>
          if \<not> is_file then (Inl (NotAFile audioPath), [FsStat audioPath])
          else
            let ext = toLowerCase rt (extname rt audioPath) in
            if ext \<notin> set [''.wav'', ''.mp3'', ''.m4a'']
            then (Inl (UnsupportedFormat ext), [FsStat audioPath])
            else (Inr (), [FsStat audioPath]))"

subsection \<open>The ASR client: upload\<close>

text \<open>\<^verbatim>\<open>uploadAudio\<close> (lines 113-163).\<close>

definition upload_params :: "runtime \<Rightarrow> AsrConfig \<Rightarrow> asr_env \<Rightarrow> string \<Rightarrow> nat \<Rightarrow> params" where
  "upload_params rt cfg env audioPath fileSize =
     [(''appId'', or_else (appid cfg) ''''),
      (''accessKeyId'', or_else (accessKeyId cfg) ''''),
      (''timestamp'', toString_nat (upload_now env div 1000)),
      (''nonce'', toString_hex (upload_random env)),
      (''fileSize'', toString_nat fileSize),
      (''fileName'', basename rt audioPath),
      (''language'', ''zh''),
      (''duration'', ''0'')]"

definition uploadAudio :: "runtime \<Rightarrow> AsrConfig \<Rightarrow> asr_env \<Rightarrow> string \<Rightarrow> api_result io" where
  "uploadAudio rt cfg env audioPath =
     (case fs_stat env audioPath of
        StatFailed c \<Rightarrow> (Inl (FsError c), [FsStat audioPath])
      | Stats is_file fileSize \<Rightarrow>
          let fileName = basename rt audioPath;
              ps = upload_params rt cfg env audioPath fileSize;
              signature = generateSignature rt cfg ps;
              uploadUrl = serviceUrl cfg @ ''/v1/upload?'' @ queryString rt ps
          in
            case fs_readFile env audioPath of
              Inl c \<Rightarrow> (Inl (FsError c), [FsStat audioPath, FsReadFile audioPath])
            | Inr fileBuffer \<Rightarrow>
                let evs = [FsStat audioPath, FsReadFile audioPath,
                           Fetch uploadUrl [(''signature'', signature)]
                             (UploadForm fileName fileBuffer)]
                in
                  case upload_fetch env of
                    Rejected m \<Rightarrow> (Inl (FetchFailed m), evs)
                  | Responded r \<Rightarrow>
                      if \<not> ok r then (Inl (UploadHttpFailed (http_status r) (body_text r)), evs)
                      else
                        case body_json r of
                          None \<Rightarrow> (Inl InvalidJson, evs)
                        | Some result \<Rightarrow>
                            if code result \<noteq> Some ''000000''
                            then (Inl (UploadRejected (code result)
                                        (or_else (descInfo result) unknown_error_text)), evs)
                            else (Inr result, evs))"

subsection \<open>The ASR client: polling\<close>

text \<open>
  \<^verbatim>\<open>pollResult\<close> (lines 168-222). One pass of the loop body issues the status query
  \<open>poll_request\<close> (lines 172-196) and interprets the outcome (lines 198-214):
  \<open>Complete\<close> is the \<^verbatim>\<open>return result\<close>, \<open>Failed\<close> a \<^verbatim>\<open>throw\<close>, \<open>Processing\<close> falls through to
  \<^verbatim>\<open>retries++\<close> and the wait of 10000 ms. Attempt \<open>i\<close> is the pass that runs with
  \<^verbatim>\<open>retries = i\<close>.
\<close>

definition poll_params :: "AsrConfig \<Rightarrow> asr_env \<Rightarrow> string \<Rightarrow> nat \<Rightarrow> params" where
  "poll_params cfg env order_id i =
     [(''appId'', or_else (appid cfg) ''''),
      (''accessKeyId'', or_else (accessKeyId cfg) ''''),
      (''timestamp'', toString_nat (poll_now env i div 1000)),
      (''nonce'', toString_hex (poll_random env i)),
      (''orderId'', order_id)]"

definition poll_request :: "runtime \<Rightarrow> AsrConfig \<Rightarrow> asr_env \<Rightarrow> string \<Rightarrow> nat \<Rightarrow> event" where
  "poll_request rt cfg env order_id i =
     (let ps = poll_params cfg env order_id i;
          signature = generateSignature rt cfg ps;
          queryUrl = serviceUrl cfg @ ''/v1/getResult?'' @ queryString rt ps
      in Fetch queryUrl [(''Content-Type'', ''application/json''), (''signature'', signature)]
           EmptyJson)"

text \<open>\<^verbatim>\<open>result.content?.orderInfo?.status\<close>.\<close>

definition order_status :: "api_result \<Rightarrow> jsvalue" where
  "order_status result =
     (case content result of
        None \<Rightarrow> JUndefined
      | Some c \<Rightarrow> (case orderInfo c of None \<Rightarrow> JUndefined | Some info \<Rightarrow> status info))"

datatype poll_step = Complete api_result | Failed error | Processing

definition poll_interpret :: "fetch_outcome \<Rightarrow> poll_step" where
  "poll_interpret outcome =
     (case outcome of
        Rejected m \<Rightarrow> Failed (FetchFailed m)
      | Responded r \<Rightarrow>
          if \<not> ok r then Failed (QueryHttpFailed (http_status r))
          else
            case body_json r of
              None \<Rightarrow> Failed InvalidJson
            | Some result \<Rightarrow>
                if code result \<noteq> Some ''000000''
                then Failed (QueryRejected (code result)
                               (or_else (descInfo result) unknown_error_text))
                else if order_status result = JNumber 4 then Complete result
                else if order_status result \<noteq> JNumber 3
                then Failed (UnexpectedStatus (order_status result))
                else Processing)"

function pollResult_loop ::
  "runtime \<Rightarrow> AsrConfig \<Rightarrow> asr_env \<Rightarrow> string \<Rightarrow> nat \<Rightarrow> nat \<Rightarrow> api_result io" where
  "pollResult_loop rt cfg env order_id maxRetries retries =
     (if retries < maxRetries then
        (case poll_interpret (poll_fetch env retries) of
           Complete result \<Rightarrow> (Inr result, [poll_request rt cfg env order_id retries])
         | Failed e \<Rightarrow> (Inl e, [poll_request rt cfg env order_id retries])
         | Processing \<Rightarrow>
             (case pollResult_loop rt cfg env order_id maxRetries (retries + 1) of
                (r, evs) \<Rightarrow>
                  (r, poll_request rt cfg env order_id retries # SetTimeout 10000 # evs)))
      else (Inl (QueryTimeout maxRetries), []))"
  by pat_completeness auto
termination
  by (relation "measure (\<lambda>(rt, cfg, env, order_id, maxRetries, retries). maxRetries - retries)")
    auto

declare pollResult_loop.simps [simp del]

text \<open>The parameter \<^verbatim>\<open>maxRetries = 100\<close>: an argument left out is the default.\<close>

definition pollResult ::
  "runtime \<Rightarrow> AsrConfig \<Rightarrow> asr_env \<Rightarrow> string \<Rightarrow> nat option \<Rightarrow> api_result io" where
  "pollResult rt cfg env order_id maxRetries =
     pollResult_loop rt cfg env order_id (case maxRetries of None \<Rightarrow> 100 | Some n \<Rightarrow> n) 0"

subsection \<open>The ASR client: parsing the transcript\<close>

record AsrSegment =
  speaker :: string
  segment_text :: string
  startTime :: "int option"
  endTime :: "int option"

record AsrResult =
  asr_text :: string
  asr_orderId :: "string option"
  asr_segments :: "AsrSegment list option"

text \<open>
  \<^verbatim>\<open>parseTranscript\<close> (lines 227-245). The \<^verbatim>\<open>for\<close> loop pushes onto \<^verbatim>\<open>segments\<close> and
  \<^verbatim>\<open>textParts\<close>; the two arrays are the accumulators of \<open>parse_loop\<close>.
\<close>

fun parse_loop ::
  "runtime \<Rightarrow> sentence list \<Rightarrow> AsrSegment list \<Rightarrow> string list \<Rightarrow> AsrSegment list \<times> string list"
  where
  "parse_loop rt [] segments textParts = (segments, textParts)"
| "parse_loop rt (s # rest) segments textParts =
     (let spk = or_else (speakerId s) ''S0'';
          txt = or_else (sentence_text s) ''''
      in if trim rt txt \<noteq> []
         then parse_loop rt rest
                (segments @ [\<lparr>speaker = spk, segment_text = trim rt txt,
                               startTime = beginTime s, endTime = sentence_endTime s\<rparr>])
                (textParts @ [spk @ '': '' @ trim rt txt])
         else parse_loop rt rest segments textParts)"

text \<open>\<^verbatim>\<open>result.content?.orderResult?.sentences || []\<close>.\<close>

definition result_sentences :: "api_result \<Rightarrow> sentence list" where
  "result_sentences result =
     (case content result of
        None \<Rightarrow> []
      | Some c \<Rightarrow>
          (case orderResult c of
             None \<Rightarrow> []
           | Some r \<Rightarrow> (case sentences r of None \<Rightarrow> [] | Some ss \<Rightarrow> ss)))"

definition parseTranscript :: "runtime \<Rightarrow> api_result \<Rightarrow> string \<times> AsrSegment list" where
  "parseTranscript rt result =
     (case parse_loop rt (result_sentences result) [] [] of
        (segments, textParts) \<Rightarrow> (join [CHR 0x0A] textParts, segments))"

subsection \<open>The ASR client: transcribe\<close>

text \<open>\<^verbatim>\<open>transcribe\<close> (lines 44-67).\<close>

definition transcribe :: "runtime \<Rightarrow> AsrConfig \<Rightarrow> asr_env \<Rightarrow> string \<Rightarrow> AsrResult io" where
  "transcribe rt cfg env audioPath =
     (case checkAudioFile rt env audioPath of
        (Inl e, evs1) \<Rightarrow> (Inl e, evs1)
      | (Inr _, evs1) \<Rightarrow>
          (case uploadAudio rt cfg env audioPath of
             (Inl e, evs2) \<Rightarrow> (Inl e, evs1 @ evs2)
           | (Inr uploadResult, evs2) \<Rightarrow>
               let order_id = (case content uploadResult of None \<Rightarrow> None | Some c \<Rightarrow> orderId c)
               in if \<not> truthy order_id then (Inl MissingOrderId, evs1 @ evs2)
                  else
                    (case pollResult rt cfg env (or_else order_id '''') None of
                       (Inl e, evs3) \<Rightarrow> (Inl e, evs1 @ evs2 @ evs3)
                     | (Inr result, evs3) \<Rightarrow>
                         (case parseTranscript rt result of
                            (txt, segments) \<Rightarrow>
                              (Inr \<lparr>asr_text = txt, asr_orderId = order_id,
                                    asr_segments = Some segments\<rparr>,
                               evs1 @ evs2 @ evs3)))))"

subsection \<open>The renderer client\<close>

text \<open>
  \<^verbatim>\<open>renderer-client.ts\<close>. The constructor replaces an absent or empty URL by its default.
  The body of a render response is \<^verbatim>\<open>{image: base64string}\<close>, its field \<^verbatim>\<open>image\<close> being
  \<open>image_field\<close>; \<open>render_json\<close> is \<^verbatim>\<open>None\<close> when \<^verbatim>\<open>response.json()\<close> rejects.
\<close>

record RendererConfig =
  markmapUrl :: "string option"
  mermaidUrl :: "string option"

definition RendererClient :: "RendererConfig \<Rightarrow> RendererConfig" where
  "RendererClient config =
     \<lparr>markmapUrl = Some (or_else (markmapUrl config) ''http://localhost:3000''),
      mermaidUrl = Some (or_else (mermaidUrl config) ''http://localhost:3001'')\<rparr>"

record RenderOptions =
  width :: "nat option"
  height :: "nat option"
  format :: "string option"

record render_body =
  image_field :: jsvalue

record render_response =
  render_ok :: bool
  render_status :: nat
  render_text :: string
  render_json :: "render_body option"

datatype render_outcome = RenderRejected string | RenderResponded render_response

text \<open>
  What the \<^verbatim>\<open>catch\<close> of \<^verbatim>\<open>renderMarkmap\<close> can catch: a rejected \<^verbatim>\<open>fetch\<close>, a rejected
  \<^verbatim>\<open>response.json()\<close>, and the \<^verbatim>\<open>TypeError\<close> of \<^verbatim>\<open>Buffer.from\<close> on a number or a boolean.
  The failures a \<^verbatim>\<open>RenderResult\<close> reports in its \<^verbatim>\<open>error\<close> field follow.
\<close>

datatype caught = FetchRejected string | JsonRejected | BufferTypeError

datatype render_failure =
    RenderHttpFailed nat string
  | RenderEmpty
  | MarkmapUnavailable caught

record RenderResult =
  success :: bool
  imageData :: "string option"
  render_error :: "render_failure option"

text \<open>Truthiness of a JSON value (\<^verbatim>\<open>if (result.image)\<close>).\<close>

fun truthy_value :: "jsvalue \<Rightarrow> bool" where
  "truthy_value JUndefined = False"
| "truthy_value JNull = False"
| "truthy_value (JBoolean b) = b"
| "truthy_value (JNumber n) = (n \<noteq> 0)"
| "truthy_value (JString s) = (s \<noteq> [])"

text \<open>\<^verbatim>\<open>renderMarkmap\<close> (lines 52-77); the outcome of its \<^verbatim>\<open>fetch\<close> is an argument.\<close>

definition renderMarkmap ::
  "runtime \<Rightarrow> RendererConfig \<Rightarrow> render_outcome \<Rightarrow> string \<Rightarrow> RenderOptions \<Rightarrow>
   RenderResult \<times> event list" where
  "renderMarkmap rt config outcome markdown options =
     (let w = (case width options of None \<Rightarrow> 1920 | Some n \<Rightarrow> n);
          h = (case height options of None \<Rightarrow> 1080 | Some n \<Rightarrow> n);
          f = (case format options of None \<Rightarrow> ''png'' | Some s \<Rightarrow> s);
          evs = [Fetch ((case markmapUrl config of None \<Rightarrow> ''undefined'' | Some u \<Rightarrow> u) @ ''/render'')
                   [(''Content-Type'', ''application/json'')] (RenderJson markdown w h f)]
      in
        case outcome of
          RenderRejected m \<Rightarrow>
            (\<lparr>success = False, imageData = None,
              render_error = Some (MarkmapUnavailable (FetchRejected m))\<rparr>, evs)
        | RenderResponded r \<Rightarrow>
            if \<not> render_ok r
            then (\<lparr>success = False, imageData = None,
                   render_error = Some (RenderHttpFailed (render_status r) (render_text r))\<rparr>, evs)
            else
              case render_json r of
                None \<Rightarrow>
                  (\<lparr>success = False, imageData = None,
                    render_error = Some (MarkmapUnavailable JsonRejected)\<rparr>, evs)
              | Some result \<Rightarrow>
                  if truthy_value (image_field result) then
                    (case image_field result of
                       JString s \<Rightarrow>
                         (\<lparr>success = True, imageData = Some (buffer_from_base64 rt s),
                           render_error = None\<rparr>, evs)
                     | other \<Rightarrow>
                         (\<lparr>success = False, imageData = None,
                           render_error = Some (MarkmapUnavailable BufferTypeError)\<rparr>, evs))
                  else (\<lparr>success = False, imageData = None, render_error = Some RenderEmpty\<rparr>,
                        evs))"

subsection \<open>The tools: configuration, environment and helpers\<close>

text \<open>
  \<^verbatim>\<open>tools.ts\<close>. The environment of one tool call: the file system, the host's LLM
  callback \<^verbatim>\<open>api.callLLM\<close> (which may be absent, and may reject), the clock read by
  \<^verbatim>\<open>generateOutputName\<close> (\<^verbatim>\<open>new Date().toISOString()\<close> and \<^verbatim>\<open>Date.now()\<close>), and the outcome of
  the render request.
\<close>

record ToolsConfig =
  outputDir :: string
  renderer :: "RendererConfig option"

record tool_env =
  tool_readFile :: "string \<Rightarrow> string + string"
  tool_mkdir :: "string \<Rightarrow> string option"
  tool_writeFile :: "string \<Rightarrow> string \<Rightarrow> string option"
  callLLM :: "(prompt \<Rightarrow> string + string) option"
  now_iso :: string
  now_ms :: nat
  render_fetch :: render_outcome

text \<open>\<^verbatim>\<open>Number.prototype.toString(36)\<close> on a natural number.\<close>

definition digit36 :: "nat \<Rightarrow> char" where
  "digit36 n = ''0123456789abcdefghijklmnopqrstuvwxyz'' ! n"

fun toString36 :: "nat \<Rightarrow> string" where
  "toString36 n =
     (if n < 36 then [digit36 n] else toString36 (n div 36) @ [digit36 (n mod 36)])"

declare toString36.simps [simp del]

text \<open>\<^verbatim>\<open>String.prototype.replace\<close> with a string pattern: the first occurrence only.\<close>

fun replace_first :: "string \<Rightarrow> string \<Rightarrow> string \<Rightarrow> string" where
  "replace_first [] pat rep = (if pat = [] then rep else [])"
| "replace_first (c # cs) pat rep =
     (if take (length pat) (c # cs) = pat then rep @ drop (length pat) (c # cs)
      else c # replace_first cs pat rep)"

text \<open>\<^verbatim>\<open>generateOutputName\<close> (lines 42-46) and \<^verbatim>\<open>saveMarkdown\<close> with \<^verbatim>\<open>ensureOutputDir\<close>
  (lines 33-37, 51-56).\<close>

definition generateOutputName :: "tool_env \<Rightarrow> string \<Rightarrow> string \<Rightarrow> string" where
  "generateOutputName env pre suf =
     take 10 (now_iso env) @ ''_'' @ pre @ ''_'' @ toString36 (now_ms env) @ suf"

definition saveMarkdown :: "runtime \<Rightarrow> tool_env \<Rightarrow> string \<Rightarrow> string \<Rightarrow> string \<Rightarrow> string io" where
  "saveMarkdown rt env output_dir name markdown =
     (let dir = path_resolve rt output_dir in
      case tool_mkdir env dir of
        Some c \<Rightarrow> (Inl (FsError c), [FsMkdir dir])
      | None \<Rightarrow>
          let filePath = path_join rt dir (if endsWith name ''.md'' then name else name @ ''.md'')
          in case tool_writeFile env filePath markdown of
               Some c \<Rightarrow> (Inl (FsError c), [FsMkdir dir, FsWriteFile filePath markdown])
             | None \<Rightarrow> (Inr filePath, [FsMkdir dir, FsWriteFile filePath markdown]))"

text \<open>
  Reading the source content: the statement at lines 158-164 of \<^verbatim>\<open>meeting_summarize\<close> and,
  word for word, at lines 235-241 of \<^verbatim>\<open>meeting_mindmap\<close>.
\<close>

definition read_source :: "tool_env \<Rightarrow> string \<Rightarrow> string io" where
  "read_source env src =
     (if endsWith src ''.md'' \<or> includes_str src ''/''
      then (case tool_readFile env src of
              Inl c \<Rightarrow> (Inl (FsError c), [FsReadFile src])
            | Inr sourceContent \<Rightarrow> (Inr sourceContent, [FsReadFile src]))
      else (Inr src, []))"

subsection \<open>The tools: \<^verbatim>\<open>meeting_summarize\<close> and \<^verbatim>\<open>meeting_mindmap\<close>\<close>

text \<open>
  The input of \<^verbatim>\<open>meeting_summarize\<close> is \<^verbatim>\<open>{source, output_name?}\<close>; \<^verbatim>\<open>meeting_mindmap\<close> adds
  \<^verbatim>\<open>render_image?\<close>. The object a tool returns through \<^verbatim>\<open>jsonResult\<close> is a \<open>tool_result\<close>:
  \<open>SummarizeDone output_file\<close> and \<open>MindmapDone markdown_file image_file tip\<close> have status
  \<^verbatim>\<open>success\<close>, \<open>ToolFailed e\<close> has status \<^verbatim>\<open>error\<close> and the message of \<open>e\<close>. The tip
  \<open>MarkdownOnly\<close> is the note that the rendering service was unavailable and no image
  was generated.
\<close>

record summarize_input =
  source :: string
  output_name :: "string option"

record mindmap_input = summarize_input +
  render_image :: "bool option"

datatype tip = MarkdownAndPng | MarkdownOnly

datatype tool_result =
    SummarizeDone string
  | MindmapDone string "string option" tip
  | ToolFailed error

text \<open>\<^verbatim>\<open>meeting_summarize.execute\<close> (lines 156-207).\<close>

definition meeting_summarize ::
  "runtime \<Rightarrow> ToolsConfig \<Rightarrow> tool_env \<Rightarrow> summarize_input \<Rightarrow> tool_result \<times> event list" where
  "meeting_summarize rt config env input =
     (case read_source env (source input) of
        (Inl e, evs1) \<Rightarrow> (ToolFailed e, evs1)
      | (Inr sourceContent, evs1) \<Rightarrow>
          (case callLLM env of
             None \<Rightarrow> (ToolFailed LLMUnavailable, evs1)
           | Some llm \<Rightarrow>
               (case llm (SummaryPrompt sourceContent) of
                  Inl m \<Rightarrow> (ToolFailed (LLMFailed m), evs1 @ [CallLLM (SummaryPrompt sourceContent)])
                | Inr summary \<Rightarrow>
                    let outputName =
                          or_else (output_name input) (generateOutputName env ''meeting'' ''_summary.md'')
                    in case saveMarkdown rt env (outputDir config) outputName summary of
                         (Inl e, evs3) \<Rightarrow>
                           (ToolFailed e, evs1 @ [CallLLM (SummaryPrompt sourceContent)] @ evs3)
                       | (Inr outputPath, evs3) \<Rightarrow>
                           (SummarizeDone outputPath,
                            evs1 @ [CallLLM (SummaryPrompt sourceContent)] @ evs3))))"

text \<open>
  \<^verbatim>\<open>meeting_mindmap.execute\<close> (lines 230-293). \<open>render_step\<close> is step 4 (lines 270-286): the
  optional rendering and the result object; \<open>evs\<close> are the effects up to there.
\<close>

definition render_step ::
  "runtime \<Rightarrow> ToolsConfig \<Rightarrow> tool_env \<Rightarrow> mindmap_input \<Rightarrow> string \<Rightarrow> string \<Rightarrow> event list \<Rightarrow>
   tool_result \<times> event list" where
  "render_step rt config env input mindmapMarkdown markdownPath evs =
     (case (if render_image input \<noteq> Some False then renderer config else None) of
        None \<Rightarrow> (MindmapDone markdownPath None MarkdownOnly, evs)
      | Some rc \<Rightarrow>
          (case renderMarkmap rt (RendererClient rc) (render_fetch env) mindmapMarkdown
                  \<lparr>width = None, height = None, format = None\<rparr> of
             (renderResult, evs4) \<Rightarrow>
               (case (if success renderResult then imageData renderResult else None) of
                  None \<Rightarrow> (MindmapDone markdownPath None MarkdownOnly, evs @ evs4)
                | Some data \<Rightarrow>
                    let imagePath = replace_first markdownPath ''.md'' ''.png'' in
                    (case tool_writeFile env imagePath data of
                       Some c \<Rightarrow> (ToolFailed (FsError c), evs @ evs4 @ [FsWriteFile imagePath data])
                     | None \<Rightarrow>
                         (MindmapDone markdownPath (Some imagePath)
                            (if imagePath \<noteq> [] then MarkdownAndPng else MarkdownOnly),
                          evs @ evs4 @ [FsWriteFile imagePath data])))))"

definition meeting_mindmap ::
  "runtime \<Rightarrow> ToolsConfig \<Rightarrow> tool_env \<Rightarrow> mindmap_input \<Rightarrow> tool_result \<times> event list" where
  "meeting_mindmap rt config env input =
     (case read_source env (source input) of
        (Inl e, evs1) \<Rightarrow> (ToolFailed e, evs1)
      | (Inr sourceContent, evs1) \<Rightarrow>
          (case callLLM env of
             None \<Rightarrow> (ToolFailed LLMUnavailable, evs1)
           | Some llm \<Rightarrow>
               (case llm (MindmapPrompt sourceContent) of
                  Inl m \<Rightarrow> (ToolFailed (LLMFailed m), evs1 @ [CallLLM (MindmapPrompt sourceContent)])
                | Inr mindmapMarkdown \<Rightarrow>
                    let outputName =
                          or_else (output_name input) (generateOutputName env ''mindmap'' ''.md'')
                    in case saveMarkdown rt env (outputDir config) outputName mindmapMarkdown of
                         (Inl e, evs3) \<Rightarrow>
                           (ToolFailed e, evs1 @ [CallLLM (MindmapPrompt sourceContent)] @ evs3)
                       | (Inr markdownPath, evs3) \<Rightarrow>
                           render_step rt config env input mindmapMarkdown markdownPath
                             (evs1 @ [CallLLM (MindmapPrompt sourceContent)] @ evs3))))"

subsection \<open>A runtime for evaluating the model on sample inputs\<close>

text \<open>
  The sample runtime works on ASCII strings and on POSIX paths without trailing slashes.
  Its \<open>hmac_sha1_base64\<close> is a stand-in that keeps key and data apart. It is used only to
  run the model on concrete inputs; no general statement depends on it.
\<close>

definition hex_digit :: "nat \<Rightarrow> char" where
  "hex_digit n = ''0123456789ABCDEF'' ! n"

definition uri_unreserved :: "char \<Rightarrow> bool" where
  "uri_unreserved c =
     ((CHR ''A'' \<le> c \<and> c \<le> CHR ''Z'') \<or> (CHR ''a'' \<le> c \<and> c \<le> CHR ''z'') \<or>
      (CHR ''0'' \<le> c \<and> c \<le> CHR ''9'') \<or> c \<in> set ''-_.!~*'()'')"

definition percent_encode :: "string \<Rightarrow> string" where
  "percent_encode s =
     concat (map (\<lambda>c. if uri_unreserved c then [c]
                       else [CHR ''%'', hex_digit (of_char c div 16), hex_digit (of_char c mod 16)]) s)"

definition ascii_lower :: "string \<Rightarrow> string" where
  "ascii_lower s =
     map (\<lambda>c. if CHR ''A'' \<le> c \<and> c \<le> CHR ''Z'' then char_of (of_char c + (32::nat)) else c) s"

definition ascii_space :: "char \<Rightarrow> bool" where
  "ascii_space c = (c = CHR '' '' \<or> (9 \<le> (of_char c :: nat) \<and> (of_char c :: nat) \<le> 13))"

definition ascii_trim :: "string \<Rightarrow> string" where
  "ascii_trim s = rev (dropWhile ascii_space (rev (dropWhile ascii_space s)))"

definition posix_basename :: "string \<Rightarrow> string" where
  "posix_basename p = rev (takeWhile (\<lambda>c. c \<noteq> CHR ''/'') (rev p))"

definition posix_extname :: "string \<Rightarrow> string" where
  "posix_extname p =
     (let b = posix_basename p; e = rev (takeWhile (\<lambda>c. c \<noteq> CHR ''.'') (rev b))
      in if length e + 1 < length b then CHR ''.'' # e else '''')"

definition sample_runtime :: runtime where
  "sample_runtime =
     \<lparr> encodeURIComponent = percent_encode,
       hmac_sha1_base64 = (\<lambda>key data. ''hmac('' @ key @ '','' @ data @ '')''),
       extname = posix_extname,
       basename = posix_basename,
       path_resolve = (\<lambda>p. p),
       path_join = (\<lambda>d n. d @ ''/'' @ n),
       toLowerCase = ascii_lower,
       trim = ascii_trim,
       buffer_from_base64 = (\<lambda>s. s) \<rparr>"

subsection \<open>Vocabulary of the statements about polling\<close>

text \<open>
  A poll response carries status \<open>s\<close> when the HTTP response is OK, its body is JSON
  with vendor code \<^verbatim>\<open>000000\<close>, and the status field of the body is \<open>s\<close>. The payload of a
  response is its JSON body.
\<close>

definition carries_status :: "fetch_outcome \<Rightarrow> jsvalue \<Rightarrow> bool" where
  "carries_status outcome s =
     (case outcome of
        Rejected m \<Rightarrow> False
      | Responded r \<Rightarrow>
          ok r \<and>
          (case body_json r of
             None \<Rightarrow> False
           | Some result \<Rightarrow> code result = Some ''000000'' \<and> order_status result = s))"

definition response_payload :: "fetch_outcome \<Rightarrow> api_result option" where
  "response_payload outcome =
     (case outcome of Rejected m \<Rightarrow> None | Responded r \<Rightarrow> body_json r)"

fun is_fetch :: "event \<Rightarrow> bool" where
  "is_fetch (Fetch url headers body) = True"
| "is_fetch e = False"

text \<open>The effects of the attempts \<open>i, ..., i + n - 1\<close> when each finds the order still
  processing: the status query, then the wait of 10000 ms.\<close>

definition processing_trace ::
  "runtime \<Rightarrow> AsrConfig \<Rightarrow> asr_env \<Rightarrow> string \<Rightarrow> nat \<Rightarrow> nat \<Rightarrow> event list" where
  "processing_trace rt cfg env order_id i n =
     concat (map (\<lambda>j. [poll_request rt cfg env order_id j, SetTimeout 10000]) [i..<i + n])"

text \<open>Sample responses and a sample environment.\<close>

definition sample_payload :: "jsvalue \<Rightarrow> sentence list \<Rightarrow> api_result" where
  "sample_payload s ss =
     \<lparr>code = Some ''000000'', descInfo = None,
      content = Some
        \<lparr>orderId = Some ''abc123'',
         orderInfo = Some \<lparr>status = s\<rparr>,
         orderResult = Some \<lparr>sentences = Some ss\<rparr>\<rparr>\<rparr>"

definition status_response :: "jsvalue \<Rightarrow> sentence list \<Rightarrow> fetch_outcome" where
  "status_response s ss =
     Responded
       \<lparr>ok = True, http_status = 200, body_text = '''',
        body_json = Some (sample_payload s ss)\<rparr>"

definition sample_sentences :: "sentence list" where
  "sample_sentences =
     [\<lparr>speakerId = Some ''S0'', sentence_text = Some ''hello'', beginTime = Some 0,
       sentence_endTime = Some 900\<rparr>,
      \<lparr>speakerId = None, sentence_text = Some ''   '', beginTime = None,
       sentence_endTime = None\<rparr>,
      \<lparr>speakerId = None, sentence_text = Some '' world '', beginTime = Some 1000,
       sentence_endTime = None\<rparr>]"

definition sample_config :: AsrConfig where
  "sample_config =
     \<lparr>serviceUrl = ''http://127.0.0.1:18001'', appid = Some ''app'', accessKeyId = None,
      accessKeySecret = Some ''s3''\<rparr>"

text \<open>An environment whose status query answers \<open>answer i\<close> at attempt \<open>i\<close>, with two
  regular files \<^verbatim>\<open>/a/talk.WAV\<close> and \<^verbatim>\<open>/a/notes.txt\<close>, a directory \<^verbatim>\<open>/a\<close> and nothing else.
  Three tapes of answers follow: two times processing and then complete; processing for
  ever; processing once and then the status 2.\<close>

definition sample_env :: "(nat \<Rightarrow> fetch_outcome) \<Rightarrow> (nat \<Rightarrow> bool) \<Rightarrow> asr_env" where
  "sample_env answer aborted =
     \<lparr>fs_stat = (\<lambda>p. if p = ''/a/talk.WAV'' \<or> p = ''/a/notes.txt'' then Stats True 4
                     else if p = ''/a'' then Stats False 0
                     else StatFailed ''ENOENT''),
      fs_readFile = (\<lambda>p. if p = ''/a/talk.WAV'' then Inr ''RIFF'' else Inl ''ENOENT''),
      upload_now = 1700000000123,
      upload_random = [0, 1, 2, 3, 4, 5, 6, 255],
      upload_fetch = status_response JUndefined [],
      poll_now = (\<lambda>i. 1700000001000 + 10000 * i),
      poll_random = (\<lambda>i. [i, 1, 2, 3, 4, 5, 6, 7]),
      poll_fetch = answer,
      caller_aborted = aborted\<rparr>"

definition two_then_done :: "nat \<Rightarrow> fetch_outcome" where
  "two_then_done i =
     (if i < 2 then status_response (JNumber 3) []
      else status_response (JNumber 4) sample_sentences)"

definition always_processing :: "nat \<Rightarrow> fetch_outcome" where
  "always_processing i = status_response (JNumber 3) []"

definition one_then_queued :: "nat \<Rightarrow> fetch_outcome" where
  "one_then_queued i =
     (if i < 1 then status_response (JNumber 3) [] else status_response (JNumber 2) [])"

subsection \<open>Vocabulary of the statements about the transcript and the audio file\<close>

text \<open>
  In the words of the specification: the text of a sentence (empty when absent), the
  sentences retained (those whose trimmed text is not empty), the speaker label of a
  sentence (\<^verbatim>\<open>S0\<close> when the speaker id is absent or empty), and the segment and the line
  a retained sentence gives.
\<close>

definition text_or_empty :: "sentence \<Rightarrow> string" where
  "text_or_empty s = (case sentence_text s of None \<Rightarrow> '''' | Some t \<Rightarrow> t)"

definition retained :: "runtime \<Rightarrow> sentence \<Rightarrow> bool" where
  "retained rt s = (trim rt (text_or_empty s) \<noteq> '''')"

definition speaker_label :: "sentence \<Rightarrow> string" where
  "speaker_label s =
     (case speakerId s of None \<Rightarrow> ''S0'' | Some v \<Rightarrow> if v = '''' then ''S0'' else v)"

definition segment_of :: "runtime \<Rightarrow> sentence \<Rightarrow> AsrSegment" where
  "segment_of rt s =
     \<lparr>speaker = speaker_label s, segment_text = trim rt (text_or_empty s),
      startTime = beginTime s, endTime = sentence_endTime s\<rparr>"

definition line_of :: "runtime \<Rightarrow> sentence \<Rightarrow> string" where
  "line_of rt s = speaker_label s @ '': '' @ trim rt (text_or_empty s)"

text \<open>The errors of the validation step: the three errors \<^verbatim>\<open>checkAudioFile\<close> throws, and a
  rejection of \<^verbatim>\<open>fs.stat\<close> that it rethrows.\<close>

fun validation_error :: "error \<Rightarrow> bool" where
  "validation_error (NotAFile p) = True"
| "validation_error (UnsupportedFormat ext) = True"
| "validation_error (FileNotFound p) = True"
| "validation_error (FsError c) = True"
| "validation_error e = False"

subsection \<open>Vocabulary of the statements about the tools\<close>

text \<open>
  The renderer request fails when the \<^verbatim>\<open>fetch\<close> rejects (a network error) or the render
  result is not a success: the HTTP response is not OK, its body is not JSON, or the body
  has no image that is a non-empty string.
\<close>

definition render_request_fails :: "render_outcome \<Rightarrow> bool" where
  "render_request_fails outcome =
     (case outcome of
        RenderRejected m \<Rightarrow> True
      | RenderResponded r \<Rightarrow>
          (if render_ok r
           then (case render_json r of
                   None \<Rightarrow> True
                 | Some result \<Rightarrow> (case image_field result of JString s \<Rightarrow> s = [] | other \<Rightarrow> True))
           else True))"

text \<open>The source names a file when it ends with \<^verbatim>\<open>.md\<close> or contains a slash.\<close>

definition names_file :: "string \<Rightarrow> bool" where
  "names_file src = (endsWith src ''.md'' \<or> CHR ''/'' \<in> set src)"

fun is_write :: "event \<Rightarrow> bool" where
  "is_write (FsWriteFile p c) = True"
| "is_write e = False"

fun is_read :: "event \<Rightarrow> bool" where
  "is_read (FsReadFile p) = True"
| "is_read e = False"

text \<open>A sample environment of a tool call: one readable file \<^verbatim>\<open>notes/talk.md\<close>, an LLM
  that answers with a fixed Markdown text, a writable file system, and the given outcome
  of the render request.\<close>

definition sample_tool_env :: "render_outcome \<Rightarrow> tool_env" where
  "sample_tool_env outcome =
     \<lparr>tool_readFile = (\<lambda>p. if p = ''notes/talk.md'' then Inr ''we met'' else Inl ''ENOENT''),
      tool_mkdir = (\<lambda>p. None),
      tool_writeFile = (\<lambda>p c. None),
      callLLM = Some (\<lambda>p. Inr ''# Topic''),
      now_iso = ''2026-01-02T03:04:05.000Z'',
      now_ms = 71,
      render_fetch = outcome\<rparr>"

definition sample_tools_config :: ToolsConfig where
  "sample_tools_config =
     \<lparr>outputDir = ''/out'', renderer = Some \<lparr>markmapUrl = None, mermaidUrl = None\<rparr>\<rparr>"

subsection \<open>Request signing: the canonical string and order independence\<close>

lemma param_get_distinct:
  assumes "distinct (map fst ps)" and "(k, v) \<in> set ps"
  shows "param_get ps k = Some v"
  using assms by (simp add: param_get_def)

lemma kept_keys_eq:
  assumes "distinct (map fst ps)"
  shows "filter (\<lambda>k. k \<noteq> ''signature'' \<and> truthy (param_get ps k)) (object_keys ps) =
         map fst (filter (\<lambda>(k, v). k \<noteq> ''signature'' \<and> v \<noteq> []) ps)"
proof -
  have "filter (\<lambda>k. k \<noteq> ''signature'' \<and> truthy (param_get ps k)) (map fst ps) =
        map fst (filter ((\<lambda>k. k \<noteq> ''signature'' \<and> truthy (param_get ps k)) \<circ> fst) ps)"
    by (simp only: filter_map)
  also have "filter ((\<lambda>k. k \<noteq> ''signature'' \<and> truthy (param_get ps k)) \<circ> fst) ps =
             filter (\<lambda>(k, v). k \<noteq> ''signature'' \<and> v \<noteq> []) ps"
  proof (rule filter_cong [OF refl])
    fix x assume x: "x \<in> set ps"
    obtain k v where kv: "x = (k, v)" by (cases x)
    from x kv assms have "param_get ps k = Some v" by (simp add: param_get_distinct)
    with kv show "((\<lambda>k. k \<noteq> ''signature'' \<and> truthy (param_get ps k)) \<circ> fst) x =
                  (case x of (k, v) \<Rightarrow> k \<noteq> ''signature'' \<and> v \<noteq> [])"
      by (simp add: truthy_def)
  qed
  finally show ?thesis by (simp add: object_keys_def)
qed

lemma map_insort_key_fst:
  "map fst (insort_key (\<lambda>(k, v). sort_rank k) x xs) = insort_key sort_rank (fst x) (map fst xs)"
  by (induction xs) (simp_all add: case_prod_beta)

lemma sort_keys_of_entries:
  "array_sort (map fst xs) = map fst (sort_key (\<lambda>(k, v). sort_rank k) xs)"
  by (induction xs) (simp_all add: array_sort_def map_insort_key_fst)

lemma sorted_rank_of_units:
  assumes "sorted (map utf16_units ks)" and "inj_on utf16_units (set ks)"
  shows "sorted (map sort_rank ks)"
  using assms
proof (induction ks)
  case Nil
  then show ?case by simp
next
  case (Cons k ks)
  have "sort_rank k \<le> sort_rank z" if z: "z \<in> set ks" for z
  proof (cases "utf16_units k = utf16_units z")
    case True
    with Cons.prems(2) z have "k = z" by (auto simp: inj_on_def)
    then show ?thesis by simp
  next
    case False
    moreover from Cons.prems(1) z have "utf16_units k \<le> utf16_units z" by simp
    ultimately have "utf16_units k < utf16_units z" by (simp add: less_le)
    then show ?thesis by (simp add: sort_rank_def less_eq_prod_simp)
  qed
  moreover from Cons have "sorted (map sort_rank ks)" by (simp add: inj_on_def)
  ultimately show ?case by simp
qed

text \<open>
  \<open>array_sort\<close> arranges its argument in ascending order of the code units, whatever the
  strings are; where the code units tell the strings apart it is the stable sort by code
  units alone.
\<close>

lemma array_sort_sorted:
  "sorted (map utf16_units (array_sort ks)) \<and> mset (array_sort ks) = mset ks"
proof -
  have "sorted (map sort_rank (array_sort ks))" by (simp add: array_sort_def)
  then have "sorted_wrt (\<lambda>a b. sort_rank a \<le> sort_rank b) (array_sort ks)"
    by (simp add: sorted_map)
  then have "sorted_wrt (\<lambda>a b. utf16_units a \<le> utf16_units b) (array_sort ks)"
    by (rule sorted_wrt_mono_rel [rotated]) (auto simp: sort_rank_def less_eq_prod_simp)
  then show ?thesis by (simp add: sorted_map array_sort_def)
qed

lemma array_sort_code_units:
  assumes "inj_on utf16_units (set ks)"
  shows "array_sort ks = sort_key utf16_units ks"
  unfolding array_sort_def
proof (rule sort_key_inj_key_eq)
  show "mset ks = mset (sort_key utf16_units ks)" by simp
  show "inj_on sort_rank (set ks)" by (simp add: inj_on_def sort_rank_def)
  show "sorted (map sort_rank (sort_key utf16_units ks))"
    using assms by (intro sorted_rank_of_units) simp_all
qed

lemma encode_pairs_of_entries:
  assumes "distinct (map fst ps)" and "set ys \<subseteq> set ps"
  shows "map (encode_pair rt ps) (map fst ys) =
         map (\<lambda>(k, v). encodeURIComponent rt k @ ''='' @ encodeURIComponent rt v) ys"
proof -
  have "\<And>y. y \<in> set ys \<Longrightarrow>
          encode_pair rt ps (fst y) =
          (case y of (k, v) \<Rightarrow> encodeURIComponent rt k @ ''='' @ encodeURIComponent rt v)"
  proof -
    fix y assume y: "y \<in> set ys"
    obtain k v where kv: "y = (k, v)" by (cases y)
    from y kv assms have "param_get ps k = Some v"
      by (auto intro: param_get_distinct)
    with kv show "encode_pair rt ps (fst y) =
          (case y of (k, v) \<Rightarrow> encodeURIComponent rt k @ ''='' @ encodeURIComponent rt v)"
      by (simp add: encode_pair_def)
  qed
  then show ?thesis by (simp add: comp_def cong: map_cong)
qed

lemma sorted_params_canonical:
  assumes "distinct (map fst ps)"
  shows "join ''&''
           (map (encode_pair rt ps)
             (array_sort (filter (\<lambda>k. k \<noteq> ''signature'' \<and> truthy (param_get ps k))
               (object_keys ps)))) =
         canonical_string rt ps"
proof -
  let ?kept = "filter (\<lambda>(k, v). k \<noteq> ''signature'' \<and> v \<noteq> []) ps"
  have sub: "set (sort_key (\<lambda>(k, v). sort_rank k) ?kept) \<subseteq> set ps" by auto
  show ?thesis
    unfolding canonical_string_def kept_keys_eq [OF assms] sort_keys_of_entries
    by (simp only: encode_pairs_of_entries [OF assms sub])
qed

text \<open>
  C3. For every parameter object and configuration, the signer returns the base64
  HMAC-SHA1 digest, under the configured secret, of the canonical string (parameters named
  \<^verbatim>\<open>signature\<close> or with an empty value dropped, the rest sorted by key in the
  lexicographic order of the code units of the keys, keys and values URL-encoded, joined as \<^verbatim>\<open>key=value\<close> with \<^verbatim>\<open>&\<close>); when no secret is configured (absent, or
  the empty string) it returns the empty string whatever the parameters are.
\<close>

theorem generateSignature_canonical:
  assumes "distinct (map fst ps)"
  shows "generateSignature rt cfg ps =
           (case accessKeySecret cfg of
              None \<Rightarrow> ''''
            | Some secret \<Rightarrow>
                if secret = '''' then ''''
                else hmac_sha1_base64 rt secret (canonical_string rt ps))"
proof (cases "accessKeySecret cfg")
  case None
  then show ?thesis by (simp add: generateSignature_def truthy_def)
next
  case (Some secret)
  show ?thesis
  proof (cases "secret = []")
    case True
    with Some show ?thesis by (simp add: generateSignature_def truthy_def)
  next
    case False
    with Some have "generateSignature rt cfg ps =
        hmac_sha1_base64 rt secret
          (join ''&''
            (map (encode_pair rt ps)
              (array_sort (filter (\<lambda>k. k \<noteq> ''signature'' \<and> truthy (param_get ps k))
                (object_keys ps)))))"
      by (simp add: generateSignature_def truthy_def or_else_def)
    with Some False show ?thesis
      by (simp only: sorted_params_canonical [OF assms] option.case if_False)
  qed
qed

lemma sample_units:
  "utf16_units ''nonce'' = [110, 111, 110, 99, 101]"
  "utf16_units [CHR 0xEF, CHR 0xBC, CHR 0xA1] = [0xFF21]"
  "utf16_units [CHR 0xF0, CHR 0x9F, CHR 0x98, CHR 0x80] = [0xD83D, 0xDE00]"
  by (simp_all add: utf16_units_def code_units_def continuation_byte_def trail_length_def
      lead_payload_def)

lemma sample_encoded:
  "percent_encode ''nonce'' = ''nonce''"
  "percent_encode ''a b'' = ''a%20b''"
  "percent_encode ''1'' = ''1''"
  "percent_encode ''2'' = ''2''"
  "percent_encode [CHR 0xEF, CHR 0xBC, CHR 0xA1] = ''%EF%BC%A1''"
  "percent_encode [CHR 0xF0, CHR 0x9F, CHR 0x98, CHR 0x80] = ''%F0%9F%98%80''"
  by (simp_all add: percent_encode_def uri_unreserved_def hex_digit_def)

text \<open>
  The sample has the keys U+FF21 and U+1F600, which the order of the code units and the
  order of the bytes put in opposite orders, a parameter named \<^verbatim>\<open>signature\<close> and one with an
  empty value.
\<close>

theorem generateSignature_canonical_witness:
  "distinct (map fst [([CHR 0xEF, CHR 0xBC, CHR 0xA1], ''1''), (''signature'', ''zz''),
                      (''appId'', ''''), ([CHR 0xF0, CHR 0x9F, CHR 0x98, CHR 0x80], ''2''),
                      (''nonce'', ''a b'')]) \<and>
   generateSignature sample_runtime
     \<lparr>serviceUrl = ''http://127.0.0.1:18001'', appid = None, accessKeyId = Some ''k/1'',
      accessKeySecret = Some ''s3''\<rparr>
     [([CHR 0xEF, CHR 0xBC, CHR 0xA1], ''1''), (''signature'', ''zz''), (''appId'', ''''),
      ([CHR 0xF0, CHR 0x9F, CHR 0x98, CHR 0x80], ''2''), (''nonce'', ''a b'')] =
   ''hmac(s3,nonce=a%20b&%F0%9F%98%80=2&%EF%BC%A1=1)'' \<and>
   generateSignature sample_runtime
     \<lparr>serviceUrl = ''http://127.0.0.1:18001'', appid = None, accessKeyId = Some ''k/1'',
      accessKeySecret = None\<rparr>
     [([CHR 0xEF, CHR 0xBC, CHR 0xA1], ''1''), (''signature'', ''zz''), (''appId'', ''''),
      ([CHR 0xF0, CHR 0x9F, CHR 0x98, CHR 0x80], ''2''), (''nonce'', ''a b'')] =
   ''''"
proof -
  let ?ps = "[([CHR 0xEF, CHR 0xBC, CHR 0xA1], ''1''), (''signature'', ''zz''), (''appId'', ''''),
              ([CHR 0xF0, CHR 0x9F, CHR 0x98, CHR 0x80], ''2''), (''nonce'', ''a b'')]"
  let ?cfg = "\<lambda>secret. \<lparr>serviceUrl = ''http://127.0.0.1:18001'', appid = None,
                          accessKeyId = Some ''k/1'', accessKeySecret = secret\<rparr>"
  have d: "distinct (map fst ?ps)" by simp
  have e: "encodeURIComponent sample_runtime = percent_encode" by (simp add: sample_runtime_def)
  have c: "canonical_string sample_runtime ?ps = ''nonce=a%20b&%F0%9F%98%80=2&%EF%BC%A1=1''"
    by (simp add: canonical_string_def sort_rank_def sample_units e sample_encoded)
  have h: "hmac_sha1_base64 sample_runtime ''s3'' ''nonce=a%20b&%F0%9F%98%80=2&%EF%BC%A1=1'' =
           ''hmac(s3,nonce=a%20b&%F0%9F%98%80=2&%EF%BC%A1=1)''"
    by (simp add: sample_runtime_def)
  from generateSignature_canonical [OF d, of sample_runtime "?cfg (Some ''s3'')"]
  have a: "generateSignature sample_runtime (?cfg (Some ''s3'')) ?ps =
           ''hmac(s3,nonce=a%20b&%F0%9F%98%80=2&%EF%BC%A1=1)''"
    by (simp only: c h AsrConfig.select_convs option.case list.distinct if_False)
  from generateSignature_canonical [OF d, of sample_runtime "?cfg None"]
  have b: "generateSignature sample_runtime (?cfg None) ?ps = ''''"
    by (simp only: AsrConfig.select_convs option.case)
  from d a b show ?thesis by (intro conjI) assumption+
qed

text \<open>
  C4. The signature does not depend on the order in which the entries of the parameter
  object are enumerated: two enumerations of the same entries (one a permutation of the
  other) give the same signature.
\<close>

theorem generateSignature_permutation:
  assumes "distinct (map fst ps)" and "mset qs = mset ps"
  shows "generateSignature rt cfg qs = generateSignature rt cfg ps"
proof -
  from assms have dq: "distinct (map fst qs)"
    using mset_eq_imp_distinct_iff [of "map fst qs" "map fst ps"] by simp
  from assms(2) have "set qs = set ps" by (rule mset_eq_setD)
  with assms(1) dq have "map_of qs = map_of ps" by (simp add: map_of_inject_set)
  then have get: "param_get qs = param_get ps" by (simp add: param_get_def fun_eq_iff)
  then have enc: "encode_pair rt qs = encode_pair rt ps"
    by (simp add: encode_pair_def fun_eq_iff)
  have "mset (filter (\<lambda>k. k \<noteq> ''signature'' \<and> truthy (param_get ps k)) (object_keys qs)) =
        mset (filter (\<lambda>k. k \<noteq> ''signature'' \<and> truthy (param_get ps k)) (object_keys ps))"
    using assms(2) by (simp only: object_keys_def mset_filter mset_map)
  then have "array_sort (filter (\<lambda>k. k \<noteq> ''signature'' \<and> truthy (param_get ps k))
               (object_keys qs)) =
             array_sort (filter (\<lambda>k. k \<noteq> ''signature'' \<and> truthy (param_get ps k))
               (object_keys ps))"
    unfolding array_sort_def
    by (rule sort_key_eq_sort_key) (simp add: inj_on_def sort_rank_def)
  then show ?thesis by (simp add: generateSignature_def get enc)
qed

theorem generateSignature_permutation_witness:
  "distinct (map fst [(''orderId'', ''o1''), (''appId'', ''a''), (''nonce'', ''n'')]) \<and>
   mset [(''nonce'', ''n''), (''orderId'', ''o1''), (''appId'', ''a'')] =
   mset [(''orderId'', ''o1''), (''appId'', ''a''), (''nonce'', ''n'')] \<and>
   generateSignature sample_runtime
     \<lparr>serviceUrl = ''u'', appid = Some ''a'', accessKeyId = None, accessKeySecret = Some ''s''\<rparr>
     [(''nonce'', ''n''), (''orderId'', ''o1''), (''appId'', ''a'')] =
   generateSignature sample_runtime
     \<lparr>serviceUrl = ''u'', appid = Some ''a'', accessKeyId = None, accessKeySecret = Some ''s''\<rparr>
     [(''orderId'', ''o1''), (''appId'', ''a''), (''nonce'', ''n'')]"
proof -
  have d: "distinct (map fst [(''orderId'', ''o1''), (''appId'', ''a''), (''nonce'', ''n'')])"
    by simp
  have m: "mset [(''nonce'', ''n''), (''orderId'', ''o1''), (''appId'', ''a'')] =
           mset [(''orderId'', ''o1''), (''appId'', ''a''), (''nonce'', ''n'')]"
    by (simp add: add_mset_commute)
  from d m generateSignature_permutation [OF d m] show ?thesis by blast
qed

subsection \<open>Polling: the loop while the order is processing\<close>

lemma poll_interpret_processing:
  "carries_status outcome (JNumber 3) \<Longrightarrow> poll_interpret outcome = Processing"
  by (auto simp: carries_status_def poll_interpret_def split: fetch_outcome.splits option.splits)

lemma poll_interpret_complete:
  "carries_status outcome (JNumber 4) \<Longrightarrow> response_payload outcome = Some result \<Longrightarrow>
   poll_interpret outcome = Complete result"
  by (auto simp: carries_status_def response_payload_def poll_interpret_def
      split: fetch_outcome.splits option.splits)

lemma poll_interpret_unexpected:
  "carries_status outcome s \<Longrightarrow> s \<noteq> JNumber 3 \<Longrightarrow> s \<noteq> JNumber 4 \<Longrightarrow>
   poll_interpret outcome = Failed (UnexpectedStatus s)"
  by (auto simp: carries_status_def poll_interpret_def split: fetch_outcome.splits option.splits)

lemma processing_trace_0: "processing_trace rt cfg env order_id i 0 = []"
  by (simp add: processing_trace_def)

lemma processing_trace_Suc:
  "processing_trace rt cfg env order_id i (Suc n) =
   poll_request rt cfg env order_id i # SetTimeout 10000 # processing_trace rt cfg env order_id (Suc i) n"
  by (simp add: processing_trace_def upt_rec)

lemma pollResult_loop_processing:
  assumes "\<And>j. i \<le> j \<Longrightarrow> j < i + n \<Longrightarrow> carries_status (poll_fetch env j) (JNumber 3)"
    and "i + n \<le> maxRetries"
  shows "pollResult_loop rt cfg env order_id maxRetries i =
         (fst (pollResult_loop rt cfg env order_id maxRetries (i + n)),
          processing_trace rt cfg env order_id i n @
          snd (pollResult_loop rt cfg env order_id maxRetries (i + n)))"
  using assms
proof (induction n arbitrary: i)
  case 0
  then show ?case by (simp add: processing_trace_0)
next
  case (Suc n)
  from Suc.prems have lt: "i < maxRetries" by simp
  from Suc.prems have "carries_status (poll_fetch env i) (JNumber 3)" by simp
  then have step: "poll_interpret (poll_fetch env i) = Processing"
    by (rule poll_interpret_processing)
  have ih: "pollResult_loop rt cfg env order_id maxRetries (Suc i) =
         (fst (pollResult_loop rt cfg env order_id maxRetries (Suc i + n)),
          processing_trace rt cfg env order_id (Suc i) n @
          snd (pollResult_loop rt cfg env order_id maxRetries (Suc i + n)))"
    using Suc.prems by (intro Suc.IH) simp_all
  show ?case
    apply (subst pollResult_loop.simps)
    apply (simp add: lt step processing_trace_Suc)
    apply (subst ih)
    apply simp
    done
qed

lemma is_fetch_poll_request [simp]: "is_fetch (poll_request rt cfg env order_id i)"
  by (simp add: poll_request_def Let_def)

lemma fetches_of_processing_trace:
  "filter is_fetch (processing_trace rt cfg env order_id i n) =
   map (poll_request rt cfg env order_id) [i..<i + n]"
proof (induction n arbitrary: i)
  case 0
  then show ?case by (simp add: processing_trace_0)
next
  case (Suc n)
  have "[i..<i + Suc n] = i # [Suc i..<Suc i + n]" by (simp add: upt_rec)
  with Suc show ?case by (simp add: processing_trace_Suc)
qed

lemma waits_of_processing_trace:
  "filter (\<lambda>e. \<not> is_fetch e) (processing_trace rt cfg env order_id i n) =
   replicate n (SetTimeout 10000)"
  by (induction n arbitrary: i) (simp_all add: processing_trace_0 processing_trace_Suc)

lemma pollResult_loop_exhausted:
  "pollResult_loop rt cfg env order_id maxRetries maxRetries = (Inl (QueryTimeout maxRetries), [])"
  by (subst pollResult_loop.simps) simp

lemma pollResult_loop_complete:
  assumes "i < maxRetries" and "poll_interpret (poll_fetch env i) = Complete result"
  shows "pollResult_loop rt cfg env order_id maxRetries i =
         (Inr result, [poll_request rt cfg env order_id i])"
  using assms by (subst pollResult_loop.simps) simp

lemma pollResult_loop_failed:
  assumes "i < maxRetries" and "poll_interpret (poll_fetch env i) = Failed e"
  shows "pollResult_loop rt cfg env order_id maxRetries i =
         (Inl e, [poll_request rt cfg env order_id i])"
  using assms by (subst pollResult_loop.simps) simp

text \<open>
  C1. If the first \<open>N\<close> poll responses carry status 3 and the next one carries status 4,
  with \<open>N + 1\<close> attempts within the retry budget, \<^verbatim>\<open>pollResult\<close> returns the full payload
  of that response, having issued exactly \<open>N + 1\<close> status queries, each of the first \<open>N\<close>
  followed by a wait of 10000 ms; no wait follows the last one.
\<close>

theorem pollResult_complete_after_processing:
  assumes "N < (case maxRetries of None \<Rightarrow> 100 | Some n \<Rightarrow> n)"
    and "\<forall>i<N. carries_status (poll_fetch env i) (JNumber 3)"
    and "carries_status (poll_fetch env N) (JNumber 4)"
    and "response_payload (poll_fetch env N) = Some result"
  shows "pollResult rt cfg env order_id maxRetries =
           (Inr result,
            processing_trace rt cfg env order_id 0 N @ [poll_request rt cfg env order_id N]) \<and>
         length (filter is_fetch (snd (pollResult rt cfg env order_id maxRetries))) = N + 1 \<and>
         filter (\<lambda>e. \<not> is_fetch e) (snd (pollResult rt cfg env order_id maxRetries)) =
           replicate N (SetTimeout 10000)"
proof -
  let ?m = "case maxRetries of None \<Rightarrow> 100 | Some n \<Rightarrow> n"
  from assms(3,4) have "poll_interpret (poll_fetch env N) = Complete result"
    by (rule poll_interpret_complete)
  with assms(1) have last: "pollResult_loop rt cfg env order_id ?m (0 + N) =
      (Inr result, [poll_request rt cfg env order_id N])"
    by (simp add: pollResult_loop_complete)
  have "pollResult_loop rt cfg env order_id ?m 0 =
        (fst (pollResult_loop rt cfg env order_id ?m (0 + N)),
         processing_trace rt cfg env order_id 0 N @
         snd (pollResult_loop rt cfg env order_id ?m (0 + N)))"
    using assms(1,2) by (intro pollResult_loop_processing) simp_all
  with last have eq: "pollResult rt cfg env order_id maxRetries =
      (Inr result,
       processing_trace rt cfg env order_id 0 N @ [poll_request rt cfg env order_id N])"
    by (simp add: pollResult_def)
  show ?thesis
    by (simp add: eq fetches_of_processing_trace waits_of_processing_trace)
qed

text \<open>
  C2. If every poll response carries status 3, \<^verbatim>\<open>pollResult\<close> makes exactly \<^verbatim>\<open>maxRetries\<close>
  attempts (100 when the argument is left out) and then fails with the timeout error that
  names this count.
\<close>

theorem pollResult_timeout:
  assumes "\<forall>i<(case maxRetries of None \<Rightarrow> 100 | Some n \<Rightarrow> n).
             carries_status (poll_fetch env i) (JNumber 3)"
  shows "pollResult rt cfg env order_id maxRetries =
           (Inl (QueryTimeout (case maxRetries of None \<Rightarrow> 100 | Some n \<Rightarrow> n)),
            processing_trace rt cfg env order_id 0
              (case maxRetries of None \<Rightarrow> 100 | Some n \<Rightarrow> n)) \<and>
         length (filter is_fetch (snd (pollResult rt cfg env order_id maxRetries))) =
           (case maxRetries of None \<Rightarrow> 100 | Some n \<Rightarrow> n)"
proof -
  let ?m = "case maxRetries of None \<Rightarrow> 100 | Some n \<Rightarrow> n"
  have "pollResult_loop rt cfg env order_id ?m 0 =
        (fst (pollResult_loop rt cfg env order_id ?m (0 + ?m)),
         processing_trace rt cfg env order_id 0 ?m @
         snd (pollResult_loop rt cfg env order_id ?m (0 + ?m)))"
    using assms by (intro pollResult_loop_processing) simp_all
  then have eq: "pollResult rt cfg env order_id maxRetries =
      (Inl (QueryTimeout ?m), processing_trace rt cfg env order_id 0 ?m)"
    by (simp add: pollResult_def pollResult_loop_exhausted)
  show ?thesis
    by (simp add: eq fetches_of_processing_trace)
qed

text \<open>
  C7. If a poll response with an OK HTTP status and vendor code \<^verbatim>\<open>000000\<close> carries a status
  other than 3 and 4, \<^verbatim>\<open>pollResult\<close> fails at once with the error that reports this status:
  the status query of that attempt is its last effect.
\<close>

theorem pollResult_unexpected_status:
  assumes "N < (case maxRetries of None \<Rightarrow> 100 | Some n \<Rightarrow> n)"
    and "\<forall>i<N. carries_status (poll_fetch env i) (JNumber 3)"
    and "carries_status (poll_fetch env N) s"
    and "s \<noteq> JNumber 3" and "s \<noteq> JNumber 4"
  shows "pollResult rt cfg env order_id maxRetries =
           (Inl (UnexpectedStatus s),
            processing_trace rt cfg env order_id 0 N @ [poll_request rt cfg env order_id N])"
proof -
  let ?m = "case maxRetries of None \<Rightarrow> 100 | Some n \<Rightarrow> n"
  from assms(3,4,5) have "poll_interpret (poll_fetch env N) = Failed (UnexpectedStatus s)"
    by (rule poll_interpret_unexpected)
  with assms(1) have last: "pollResult_loop rt cfg env order_id ?m (0 + N) =
      (Inl (UnexpectedStatus s), [poll_request rt cfg env order_id N])"
    by (simp add: pollResult_loop_failed)
  have "pollResult_loop rt cfg env order_id ?m 0 =
        (fst (pollResult_loop rt cfg env order_id ?m (0 + N)),
         processing_trace rt cfg env order_id 0 N @
         snd (pollResult_loop rt cfg env order_id ?m (0 + N)))"
    using assms(1,2) by (intro pollResult_loop_processing) simp_all
  with last show ?thesis by (simp add: pollResult_def)
qed

theorem pollResult_complete_after_processing_witness:
  "(2::nat) < (case Some 5 of None \<Rightarrow> 100 | Some n \<Rightarrow> n) \<and>
   carries_status (poll_fetch (sample_env two_then_done (\<lambda>i. False)) 0) (JNumber 3) \<and>
   carries_status (poll_fetch (sample_env two_then_done (\<lambda>i. False)) 1) (JNumber 3) \<and>
   carries_status (poll_fetch (sample_env two_then_done (\<lambda>i. False)) 2) (JNumber 4) \<and>
   response_payload (poll_fetch (sample_env two_then_done (\<lambda>i. False)) 2) =
     Some (sample_payload (JNumber 4) sample_sentences) \<and>
   fst (pollResult sample_runtime sample_config (sample_env two_then_done (\<lambda>i. False))
          ''abc123'' (Some 5)) =
     Inr (sample_payload (JNumber 4) sample_sentences) \<and>
   length (filter is_fetch
     (snd (pollResult sample_runtime sample_config (sample_env two_then_done (\<lambda>i. False))
            ''abc123'' (Some 5)))) = 3 \<and>
   filter (\<lambda>e. \<not> is_fetch e)
     (snd (pollResult sample_runtime sample_config (sample_env two_then_done (\<lambda>i. False))
            ''abc123'' (Some 5))) = [SetTimeout 10000, SetTimeout 10000]"
proof -
  let ?env = "sample_env two_then_done (\<lambda>i. False)"
  have h1: "(2::nat) < (case Some 5 of None \<Rightarrow> 100 | Some n \<Rightarrow> n)" by simp
  have p: "\<And>i. i < 2 \<Longrightarrow> carries_status (poll_fetch ?env i) (JNumber 3)"
    by (simp add: sample_env_def two_then_done_def status_response_def sample_payload_def
        carries_status_def order_status_def)
  then have h2: "\<forall>i<2. carries_status (poll_fetch ?env i) (JNumber 3)" by blast
  have h3: "carries_status (poll_fetch ?env 2) (JNumber 4)"
    by (simp add: sample_env_def two_then_done_def status_response_def sample_payload_def
        carries_status_def order_status_def)
  have h4: "response_payload (poll_fetch ?env 2) =
            Some (sample_payload (JNumber 4) sample_sentences)"
    by (simp add: sample_env_def two_then_done_def status_response_def response_payload_def)
  note run = pollResult_complete_after_processing
    [OF h1 h2 h3 h4, of sample_runtime sample_config "''abc123''"]
  from run [THEN conjunct1] have a: "fst (pollResult sample_runtime sample_config ?env ''abc123'' (Some 5)) =
      Inr (sample_payload (JNumber 4) sample_sentences)" by simp
  from run [THEN conjunct2, THEN conjunct1] have b: "length (filter is_fetch
      (snd (pollResult sample_runtime sample_config ?env ''abc123'' (Some 5)))) = 3"
    by simp
  from run [THEN conjunct2, THEN conjunct2] have c: "filter (\<lambda>e. \<not> is_fetch e)
      (snd (pollResult sample_runtime sample_config ?env ''abc123'' (Some 5))) =
      [SetTimeout 10000, SetTimeout 10000]"
    by (simp add: numeral_2_eq_2)
  have p0: "carries_status (poll_fetch ?env 0) (JNumber 3)" by (rule p) simp
  have p1: "carries_status (poll_fetch ?env 1) (JNumber 3)" by (rule p) simp
  from h1 p0 p1 h3 h4 a b c show ?thesis by (intro conjI) assumption+
qed

lemma pollResult_loop_all_processing:
  assumes "\<And>i. i < m \<Longrightarrow> carries_status (poll_fetch env i) (JNumber 3)"
  shows "pollResult_loop rt cfg env order_id m 0 =
         (Inl (QueryTimeout m), processing_trace rt cfg env order_id 0 m)"
proof -
  have "pollResult_loop rt cfg env order_id m 0 =
        (fst (pollResult_loop rt cfg env order_id m (0 + m)),
         processing_trace rt cfg env order_id 0 m @
         snd (pollResult_loop rt cfg env order_id m (0 + m)))"
    using assms by (intro pollResult_loop_processing) simp_all
  then show ?thesis by (simp add: pollResult_loop_exhausted)
qed

theorem pollResult_timeout_witness:
  "carries_status (poll_fetch (sample_env always_processing (\<lambda>i. False)) 0) (JNumber 3) \<and>
   carries_status (poll_fetch (sample_env always_processing (\<lambda>i. False)) 1) (JNumber 3) \<and>
   carries_status (poll_fetch (sample_env always_processing (\<lambda>i. False)) 2) (JNumber 3) \<and>
   fst (pollResult sample_runtime sample_config (sample_env always_processing (\<lambda>i. False))
          ''abc123'' (Some 3)) = Inl (QueryTimeout 3) \<and>
   length (filter is_fetch
     (snd (pollResult sample_runtime sample_config (sample_env always_processing (\<lambda>i. False))
            ''abc123'' (Some 3)))) = 3 \<and>
   fst (pollResult sample_runtime sample_config (sample_env always_processing (\<lambda>i. False))
          ''abc123'' None) = Inl (QueryTimeout 100) \<and>
   length (filter is_fetch
     (snd (pollResult sample_runtime sample_config (sample_env always_processing (\<lambda>i. False))
            ''abc123'' None))) = 100"
proof -
  let ?env = "sample_env always_processing (\<lambda>i. False)"
  have p: "\<And>i. carries_status (poll_fetch ?env i) (JNumber 3)"
    by (simp add: sample_env_def always_processing_def status_response_def sample_payload_def
        carries_status_def order_status_def)
  have h3: "\<forall>i<(case Some 3 of None \<Rightarrow> 100 | Some n \<Rightarrow> n).
              carries_status (poll_fetch ?env i) (JNumber 3)"
    using p by blast
  have h100: "\<forall>i<(case None of None \<Rightarrow> 100 | Some n \<Rightarrow> n).
              carries_status (poll_fetch ?env i) (JNumber 3)"
    using p by blast
  note run3 = pollResult_timeout [OF h3, of sample_runtime sample_config "''abc123''"]
  note run100 = pollResult_timeout [OF h100, of sample_runtime sample_config "''abc123''"]
  from run3 [THEN conjunct1]
  have a: "fst (pollResult sample_runtime sample_config ?env ''abc123'' (Some 3)) =
           Inl (QueryTimeout 3)" by simp
  from run3 [THEN conjunct2]
  have b: "length (filter is_fetch
      (snd (pollResult sample_runtime sample_config ?env ''abc123'' (Some 3)))) = 3" by simp
  from run100 [THEN conjunct1]
  have c: "fst (pollResult sample_runtime sample_config ?env ''abc123'' None) =
           Inl (QueryTimeout 100)" by simp
  from run100 [THEN conjunct2]
  have d: "length (filter is_fetch
      (snd (pollResult sample_runtime sample_config ?env ''abc123'' None))) = 100" by simp
  from p [of 0] p [of 1] p [of 2] a b c d show ?thesis by (intro conjI) assumption+
qed

theorem pollResult_unexpected_status_witness:
  "(1::nat) < (case None of None \<Rightarrow> 100 | Some n \<Rightarrow> n) \<and>
   carries_status (poll_fetch (sample_env one_then_queued (\<lambda>i. False)) 0) (JNumber 3) \<and>
   carries_status (poll_fetch (sample_env one_then_queued (\<lambda>i. False)) 1) (JNumber 2) \<and>
   JNumber 2 \<noteq> JNumber 3 \<and> JNumber 2 \<noteq> JNumber 4 \<and>
   fst (pollResult sample_runtime sample_config (sample_env one_then_queued (\<lambda>i. False))
          ''abc123'' None) = Inl (UnexpectedStatus (JNumber 2)) \<and>
   length (snd (pollResult sample_runtime sample_config (sample_env one_then_queued (\<lambda>i. False))
          ''abc123'' None)) = 3"
proof -
  let ?env = "sample_env one_then_queued (\<lambda>i. False)"
  have h1: "(1::nat) < (case None of None \<Rightarrow> 100 | Some n \<Rightarrow> n)" by simp
  have p0: "carries_status (poll_fetch ?env 0) (JNumber 3)"
    by (simp add: sample_env_def one_then_queued_def status_response_def sample_payload_def
        carries_status_def order_status_def)
  then have h2: "\<forall>i<1. carries_status (poll_fetch ?env i) (JNumber 3)" by simp
  have h3: "carries_status (poll_fetch ?env 1) (JNumber 2)"
    by (simp add: sample_env_def one_then_queued_def status_response_def sample_payload_def
        carries_status_def order_status_def)
  have h4: "JNumber 2 \<noteq> JNumber 3" by simp
  have h5: "JNumber 2 \<noteq> JNumber 4" by simp
  note run = pollResult_unexpected_status
    [OF h1 h2 h3 h4 h5, of sample_runtime sample_config "''abc123''"]
  from run have a: "fst (pollResult sample_runtime sample_config ?env ''abc123'' None) =
      Inl (UnexpectedStatus (JNumber 2))" by simp
  from run have b: "length (snd (pollResult sample_runtime sample_config ?env ''abc123'' None)) = 3"
    by (simp add: processing_trace_def)
  from h1 p0 h3 h4 h5 a b show ?thesis by (intro conjI) assumption+
qed

subsection \<open>Polling: the caller's abort signal\<close>

lemma poll_request_abort:
  "poll_request rt cfg (env\<lparr>caller_aborted := a\<rparr>) order_id i = poll_request rt cfg env order_id i"
  by (simp add: poll_request_def poll_params_def)

lemma pollResult_loop_abort:
  "pollResult_loop rt cfg (env\<lparr>caller_aborted := a\<rparr>) order_id m i =
   pollResult_loop rt cfg env order_id m i"
proof (induction rt cfg env order_id m i rule: pollResult_loop.induct)
  case (1 rt cfg env order_id maxRetries retries)
  show ?case
  proof (cases "retries < maxRetries \<and> poll_interpret (poll_fetch env retries) = Processing")
    case True
    with 1 have ih:
      "pollResult_loop rt cfg (env\<lparr>caller_aborted := a\<rparr>) order_id maxRetries (Suc retries) =
       pollResult_loop rt cfg env order_id maxRetries (Suc retries)"
      by simp
    from True show ?thesis
      by (subst pollResult_loop.simps, subst (2) pollResult_loop.simps)
         (simp add: ih poll_request_abort)
  next
    case False
    then show ?thesis
      by (subst pollResult_loop.simps, subst (2) pollResult_loop.simps)
         (auto simp: poll_request_abort split: poll_step.splits)
  qed
qed

text \<open>
  C8 (as the code has it). \<^verbatim>\<open>pollResult\<close> is not cancellable by the caller: it takes no
  abort signal, and whatever the state of an abort signal of the caller, its result and
  the status queries and waits it performs are the same.
\<close>

theorem pollResult_not_cancellable:
  "pollResult rt cfg (env\<lparr>caller_aborted := a\<rparr>) order_id maxRetries =
   pollResult rt cfg env order_id maxRetries"
  by (simp add: pollResult_def pollResult_loop_abort)

text \<open>
  Against cancellation by an abort signal: the abort is requested before the first
  attempt and stays requested; every response carries status 3; the retry budget is 2.
  The polling does not stop, both status queries are issued, and the error that surfaces
  is the timeout error.
\<close>

theorem pollResult_abort_counterexample:
  "caller_aborted (sample_env always_processing (\<lambda>i. True)) 0 \<and>
   caller_aborted (sample_env always_processing (\<lambda>i. True)) 1 \<and>
   fst (pollResult sample_runtime sample_config (sample_env always_processing (\<lambda>i. True))
          ''abc123'' (Some 2)) = Inl (QueryTimeout 2) \<and>
   length (filter is_fetch
     (snd (pollResult sample_runtime sample_config (sample_env always_processing (\<lambda>i. True))
            ''abc123'' (Some 2)))) = 2"
proof -
  let ?env = "sample_env always_processing (\<lambda>i. True)"
  have p: "\<And>i. carries_status (poll_fetch ?env i) (JNumber 3)"
    by (simp add: sample_env_def always_processing_def status_response_def sample_payload_def
        carries_status_def order_status_def)
  have run: "pollResult_loop sample_runtime sample_config ?env ''abc123'' 2 0 =
        (Inl (QueryTimeout 2), processing_trace sample_runtime sample_config ?env ''abc123'' 0 2)"
    by (rule pollResult_loop_all_processing) (rule p)
  have ab: "\<And>i. caller_aborted ?env i" by (simp add: sample_env_def)
  show ?thesis
    by (simp add: ab pollResult_def run fetches_of_processing_trace)
qed

subsection \<open>The transcript parser\<close>

lemma or_else_text: "or_else (sentence_text s) '''' = text_or_empty s"
  by (simp add: or_else_def text_or_empty_def split: option.split)

lemma or_else_speaker: "or_else (speakerId s) ''S0'' = speaker_label s"
  by (simp add: or_else_def speaker_label_def)

lemma parse_loop_filter_map:
  "parse_loop rt ss segments textParts =
     (segments @ map (segment_of rt) (filter (retained rt) ss),
      textParts @ map (line_of rt) (filter (retained rt) ss))"
proof (induction ss arbitrary: segments textParts)
  case Nil
  then show ?case by simp
next
  case (Cons s ss)
  show ?case
  proof (cases "retained rt s")
    case True
    then show ?thesis
      by (simp add: Cons.IH Let_def or_else_text or_else_speaker retained_def segment_of_def
          line_of_def)
  next
    case False
    then show ?thesis
      by (simp add: Cons.IH Let_def or_else_text or_else_speaker retained_def)
  qed
qed

text \<open>
  C5. For every sentence list of the vendor, the parser keeps exactly the sentences whose
  trimmed text is not empty, in the order of the input, in the segment list and in the
  text; a kept sentence with no speaker id gets the speaker \<^verbatim>\<open>S0\<close>; the text is the lines
  \<^verbatim>\<open>speaker: text\<close> of the kept sentences joined by newlines.
\<close>

theorem parseTranscript_retained:
  "parseTranscript rt result =
     (join [CHR 0x0A] (map (line_of rt) (filter (retained rt) (result_sentences result))),
      map (segment_of rt) (filter (retained rt) (result_sentences result)))"
  by (simp add: parseTranscript_def parse_loop_filter_map)

theorem parseTranscript_retained_witness:
  "parseTranscript sample_runtime (sample_payload (JNumber 4) sample_sentences) =
     (''S0: hello'' @ [CHR 0x0A] @ ''S0: world'',
      [\<lparr>speaker = ''S0'', segment_text = ''hello'', startTime = Some 0, endTime = Some 900\<rparr>,
       \<lparr>speaker = ''S0'', segment_text = ''world'', startTime = Some 1000, endTime = None\<rparr>])"
proof -
  have t: "trim sample_runtime = ascii_trim" by (simp add: sample_runtime_def)
  have a: "ascii_trim ''hello'' = ''hello''" "ascii_trim ''   '' = ''''"
    "ascii_trim '' world '' = ''world''"
    by (simp_all add: ascii_trim_def ascii_space_def)
  show ?thesis
    unfolding parseTranscript_retained
    by (simp add: result_sentences_def sample_payload_def sample_sentences_def retained_def
        text_or_empty_def line_of_def segment_of_def speaker_label_def t a)
qed

subsection \<open>Validation of the audio file\<close>

lemma checkAudioFile_rejects:
  assumes "(\<forall>sz. fs_stat env audioPath \<noteq> Stats True sz) \<or>
           toLowerCase rt (extname rt audioPath) \<notin> {''.wav'', ''.mp3'', ''.m4a''}"
  shows "\<exists>e. checkAudioFile rt env audioPath = (Inl e, [FsStat audioPath]) \<and> validation_error e"
  using assms
  by (cases "fs_stat env audioPath") (auto simp: checkAudioFile_def Let_def)

lemma transcribe_check_failed:
  "checkAudioFile rt env audioPath = (Inl e, evs) \<Longrightarrow>
   transcribe rt cfg env audioPath = (Inl e, evs)"
  by (simp add: transcribe_def)

text \<open>
  C6. If the audio path does not name an existing regular file (\<^verbatim>\<open>fs.stat\<close> fails, or the
  path is not a regular file), or its lower-cased extension is none of \<^verbatim>\<open>.wav\<close>, \<^verbatim>\<open>.mp3\<close>,
  \<^verbatim>\<open>.m4a\<close>, then \<^verbatim>\<open>transcribe\<close> fails with an error of the validation step, and its only
  effect is the \<^verbatim>\<open>fs.stat\<close> of the check: no request is sent, so neither the upload nor a
  status query takes place.
\<close>

theorem transcribe_rejects_before_network:
  assumes "(\<forall>sz. fs_stat env audioPath \<noteq> Stats True sz) \<or>
           toLowerCase rt (extname rt audioPath) \<notin> {''.wav'', ''.mp3'', ''.m4a''}"
  shows "(\<exists>e. fst (transcribe rt cfg env audioPath) = Inl e \<and> validation_error e) \<and>
         snd (transcribe rt cfg env audioPath) = [FsStat audioPath] \<and>
         filter is_fetch (snd (transcribe rt cfg env audioPath)) = []"
proof -
  from checkAudioFile_rejects [OF assms] obtain e where
    e: "checkAudioFile rt env audioPath = (Inl e, [FsStat audioPath])" "validation_error e"
    by blast
  then have "transcribe rt cfg env audioPath = (Inl e, [FsStat audioPath])"
    by (simp add: transcribe_check_failed)
  with e(2) show ?thesis by simp
qed

theorem transcribe_rejects_before_network_witness:
  "toLowerCase sample_runtime (extname sample_runtime ''/a/notes.txt'') \<notin>
     {''.wav'', ''.mp3'', ''.m4a''} \<and>
   fs_stat (sample_env two_then_done (\<lambda>i. False)) ''/a'' = Stats False 0 \<and>
   fs_stat (sample_env two_then_done (\<lambda>i. False)) ''/a/gone.wav'' = StatFailed ''ENOENT'' \<and>
   transcribe sample_runtime sample_config (sample_env two_then_done (\<lambda>i. False))
     ''/a/notes.txt'' = (Inl (UnsupportedFormat ''.txt''), [FsStat ''/a/notes.txt'']) \<and>
   transcribe sample_runtime sample_config (sample_env two_then_done (\<lambda>i. False))
     ''/a'' = (Inl (NotAFile ''/a''), [FsStat ''/a'']) \<and>
   transcribe sample_runtime sample_config (sample_env two_then_done (\<lambda>i. False))
     ''/a/gone.wav'' = (Inl (FileNotFound ''/a/gone.wav''), [FsStat ''/a/gone.wav''])"
proof -
  let ?env = "sample_env two_then_done (\<lambda>i. False)"
  have ext: "toLowerCase sample_runtime (extname sample_runtime ''/a/notes.txt'') = ''.txt''"
    by (simp add: sample_runtime_def posix_extname_def posix_basename_def ascii_lower_def Let_def)
  have h1: "toLowerCase sample_runtime (extname sample_runtime ''/a/notes.txt'') \<notin>
     {''.wav'', ''.mp3'', ''.m4a''}" by (simp add: ext)
  have s2: "fs_stat ?env ''/a'' = Stats False 0" by (simp add: sample_env_def)
  have s3: "fs_stat ?env ''/a/gone.wav'' = StatFailed ''ENOENT''" by (simp add: sample_env_def)
  have c1: "fst (checkAudioFile sample_runtime ?env ''/a/notes.txt'') =
            Inl (UnsupportedFormat ''.txt'')"
    by (simp add: checkAudioFile_def ext sample_env_def Let_def)
  have c2: "fst (checkAudioFile sample_runtime ?env ''/a'') = Inl (NotAFile ''/a'')"
    by (simp add: checkAudioFile_def s2)
  have c3: "fst (checkAudioFile sample_runtime ?env ''/a/gone.wav'') =
            Inl (FileNotFound ''/a/gone.wav'')"
    by (simp add: checkAudioFile_def s3)
  have f: "\<And>p e. fst (checkAudioFile sample_runtime ?env p) = Inl e \<Longrightarrow>
            fst (transcribe sample_runtime sample_config ?env p) = Inl e"
  proof -
    fix p e assume "fst (checkAudioFile sample_runtime ?env p) = Inl e"
    then have "checkAudioFile sample_runtime ?env p =
               (Inl e, snd (checkAudioFile sample_runtime ?env p))"
      by (simp add: prod_eq_iff)
    then show "fst (transcribe sample_runtime sample_config ?env p) = Inl e"
      by (simp add: transcribe_check_failed)
  qed
  note r1 = transcribe_rejects_before_network
    [of ?env "''/a/notes.txt''" sample_runtime sample_config, OF disjI2, OF h1]
  have h2: "\<forall>sz. fs_stat ?env ''/a'' \<noteq> Stats True sz" by (simp add: s2)
  have h3: "\<forall>sz. fs_stat ?env ''/a/gone.wav'' \<noteq> Stats True sz" by (simp add: s3)
  note r2 = transcribe_rejects_before_network
    [of ?env "''/a''" sample_runtime sample_config, OF disjI1, OF h2]
  note r3 = transcribe_rejects_before_network
    [of ?env "''/a/gone.wav''" sample_runtime sample_config, OF disjI1, OF h3]
  have t1: "transcribe sample_runtime sample_config ?env ''/a/notes.txt'' =
            (Inl (UnsupportedFormat ''.txt''), [FsStat ''/a/notes.txt''])"
    using r1 [THEN conjunct2, THEN conjunct1] f [OF c1] by (simp add: prod_eq_iff)
  have t2: "transcribe sample_runtime sample_config ?env ''/a'' =
            (Inl (NotAFile ''/a''), [FsStat ''/a''])"
    using r2 [THEN conjunct2, THEN conjunct1] f [OF c2] by (simp add: prod_eq_iff)
  have t3: "transcribe sample_runtime sample_config ?env ''/a/gone.wav'' =
            (Inl (FileNotFound ''/a/gone.wav''), [FsStat ''/a/gone.wav''])"
    using r3 [THEN conjunct2, THEN conjunct1] f [OF c3] by (simp add: prod_eq_iff)
  from h1 s2 s3 t1 t2 t3 show ?thesis by (intro conjI) assumption+
qed

subsection \<open>The tools: reading the source and falling back to Markdown\<close>

lemma includes_str_char: "includes_str s [c] = (c \<in> set s)"
  by (induction s) auto

lemma read_source_events:
  "snd (read_source env src) =
     (if endsWith src ''.md'' \<or> CHR ''/'' \<in> set src then [FsReadFile src] else [])"
  by (auto simp: read_source_def includes_str_char split: sum.splits)

lemma saveMarkdown_events:
  "\<exists>evs. snd (saveMarkdown rt env od name md) = evs \<and> filter is_read evs = [] \<and>
         filter is_fetch evs = [] \<and>
         (\<forall>p. fst (saveMarkdown rt env od name md) = Inr p \<longrightarrow>
              evs = [FsMkdir (path_resolve rt od), FsWriteFile p md])"
  by (auto simp: saveMarkdown_def Let_def split: option.splits)

lemma renderMarkmap_events:
  "\<exists>ev. snd (renderMarkmap rt rc outcome md opts) = [ev] \<and> is_fetch ev"
  by (auto simp: renderMarkmap_def Let_def split: render_outcome.splits option.splits jsvalue.splits)

lemma renderMarkmap_fails:
  assumes "render_request_fails outcome"
  shows "\<not> success (fst (renderMarkmap rt rc outcome md opts))"
  using assms
  by (auto simp: renderMarkmap_def render_request_fails_def Let_def
      split: render_outcome.splits option.splits jsvalue.splits if_splits)

lemma render_step_no_renderer:
  assumes "render_image input = Some False \<or> renderer config = None"
  shows "render_step rt config env input md p evs = (MindmapDone p None MarkdownOnly, evs)"
  using assms by (auto simp: render_step_def)

lemma render_step_fails:
  assumes "render_request_fails (render_fetch env)"
    and "render_image input \<noteq> Some False" and "renderer config = Some rc"
  shows "\<exists>ev. render_step rt config env input md p evs =
              (MindmapDone p None MarkdownOnly, evs @ [ev]) \<and> is_fetch ev"
proof -
  obtain res evs4 where r: "renderMarkmap rt (RendererClient rc) (render_fetch env) md
      \<lparr>width = None, height = None, format = None\<rparr> = (res, evs4)"
    by (cases "renderMarkmap rt (RendererClient rc) (render_fetch env) md
      \<lparr>width = None, height = None, format = None\<rparr>")
  from renderMarkmap_fails [OF assms(1), of rt "RendererClient rc" md
      "\<lparr>width = None, height = None, format = None\<rparr>"] r
  have ns: "\<not> success res" by simp
  from renderMarkmap_events [of rt "RendererClient rc" "render_fetch env" md
      "\<lparr>width = None, height = None, format = None\<rparr>"] r
  obtain ev where ev: "evs4 = [ev]" "is_fetch ev" by auto
  from assms(2,3) r ns ev show ?thesis by (simp add: render_step_def)
qed

lemma fetch_not_write: "is_fetch ev \<Longrightarrow> \<not> is_write ev"
  by (cases ev) simp_all

lemma read_source_no_fetch_no_write:
  "filter is_fetch (snd (read_source env src)) = [] \<and>
   filter is_write (snd (read_source env src)) = []"
  by (simp add: read_source_events)

text \<open>
  C9. If a mindmap call with \<^verbatim>\<open>render_image\<close> not false issues the render request and the
  request fails (the \<^verbatim>\<open>fetch\<close> rejects, or the render result is not a success), the tool
  returns the success result with the path of the saved Markdown file, no image file and
  the note that no image was generated; the Markdown file is the only file it has
  written.
\<close>

theorem mindmap_renderer_failure:
  assumes "render_image input \<noteq> Some False"
    and "render_request_fails (render_fetch env)"
    and "\<exists>e\<in>set (snd (meeting_mindmap rt config env input)). is_fetch e"
  shows "\<exists>markdownPath mindmapMarkdown.
           fst (meeting_mindmap rt config env input) =
             MindmapDone markdownPath None MarkdownOnly \<and>
           filter is_write (snd (meeting_mindmap rt config env input)) =
             [FsWriteFile markdownPath mindmapMarkdown]"
proof -
  let ?run = "meeting_mindmap rt config env input"
  from assms(3) have fetched: "filter is_fetch (snd ?run) \<noteq> []"
    by (auto simp: filter_empty_conv)
  obtain r1 evs1 where rs: "read_source env (source input) = (r1, evs1)"
    by (cases "read_source env (source input)")
  with read_source_no_fetch_no_write [of env "source input"]
  have e1: "filter is_fetch evs1 = []" "filter is_write evs1 = []" by simp_all
  show ?thesis
  proof (cases r1)
    case (Inl e)
    with rs e1 fetched show ?thesis by (simp add: meeting_mindmap_def)
  next
    case (Inr sourceContent)
    note content = this
    show ?thesis
    proof (cases "callLLM env")
      case None
      with rs content e1 fetched show ?thesis by (simp add: meeting_mindmap_def)
    next
      case (Some llm)
      note llm = this
      show ?thesis
      proof (cases "llm (MindmapPrompt sourceContent)")
        case (Inl m)
        with rs content llm e1 fetched show ?thesis by (simp add: meeting_mindmap_def)
      next
        case (Inr mindmapMarkdown)
        note md = this
        let ?name = "or_else (output_name input) (generateOutputName env ''mindmap'' ''.md'')"
        obtain r3 evs3 where sm:
          "saveMarkdown rt env (outputDir config) ?name mindmapMarkdown = (r3, evs3)"
          by (cases "saveMarkdown rt env (outputDir config) ?name mindmapMarkdown")
        with saveMarkdown_events [of rt env "outputDir config" ?name mindmapMarkdown]
        have e3: "filter is_fetch evs3 = []"
          and w3: "\<And>p. r3 = Inr p \<Longrightarrow>
                 evs3 = [FsMkdir (path_resolve rt (outputDir config)), FsWriteFile p mindmapMarkdown]"
          by simp_all
        show ?thesis
        proof (cases r3)
          case (Inl e)
          with rs content llm md sm e1 e3 fetched show ?thesis
            by (simp add: meeting_mindmap_def)
        next
          case (Inr markdownPath)
          let ?evs = "evs1 @ [CallLLM (MindmapPrompt sourceContent)] @ evs3"
          from rs content llm md sm Inr
          have run: "?run = render_step rt config env input mindmapMarkdown markdownPath ?evs"
            by (simp add: meeting_mindmap_def)
          from e1 e3 have nf: "filter is_fetch ?evs = []" by simp
          from e1 w3 [OF Inr] have wr: "filter is_write ?evs = [FsWriteFile markdownPath mindmapMarkdown]"
            by simp
          show ?thesis
          proof (cases "renderer config")
            case None
            then have "?run = (MindmapDone markdownPath None MarkdownOnly, ?evs)"
              by (simp add: run render_step_no_renderer)
            with nf fetched show ?thesis by simp
          next
            case (Some rc)
            from render_step_fails [OF assms(2) assms(1) Some, of rt mindmapMarkdown markdownPath ?evs]
            obtain ev where ev: "?run = (MindmapDone markdownPath None MarkdownOnly, ?evs @ [ev])"
              "is_fetch ev"
              by (auto simp: run)
            from ev(2) have "\<not> is_write ev" by (rule fetch_not_write)
            with ev(1) wr show ?thesis by simp
          qed
        qed
      qed
    qed
  qed
qed

theorem mindmap_renderer_failure_witness:
  "render_image \<lparr>source = ''we met'', output_name = Some ''plan'', render_image = Some True\<rparr> \<noteq>
     Some False \<and>
   render_request_fails (render_fetch (sample_tool_env (RenderRejected ''ECONNREFUSED''))) \<and>
   (\<exists>e\<in>set (snd (meeting_mindmap sample_runtime sample_tools_config
                     (sample_tool_env (RenderRejected ''ECONNREFUSED''))
                     \<lparr>source = ''we met'', output_name = Some ''plan'',
                      render_image = Some True\<rparr>)). is_fetch e) \<and>
   fst (meeting_mindmap sample_runtime sample_tools_config
          (sample_tool_env (RenderRejected ''ECONNREFUSED''))
          \<lparr>source = ''we met'', output_name = Some ''plan'', render_image = Some True\<rparr>) =
     MindmapDone ''/out/plan.md'' None MarkdownOnly \<and>
   filter is_write
     (snd (meeting_mindmap sample_runtime sample_tools_config
            (sample_tool_env (RenderRejected ''ECONNREFUSED''))
            \<lparr>source = ''we met'', output_name = Some ''plan'', render_image = Some True\<rparr>)) =
     [FsWriteFile ''/out/plan.md'' ''# Topic'']"
proof -
  let ?env = "sample_tool_env (RenderRejected ''ECONNREFUSED'')"
  let ?input = "\<lparr>source = ''we met'', output_name = Some ''plan'', render_image = Some True\<rparr>"
  let ?run = "meeting_mindmap sample_runtime sample_tools_config ?env ?input"
  have h1: "render_image ?input \<noteq> Some False" by simp
  have h2: "render_request_fails (render_fetch ?env)"
    by (simp add: sample_tool_env_def render_request_fails_def)
  have rs: "read_source ?env ''we met'' = (Inr ''we met'', [])"
    by (simp add: read_source_def endsWith_def)
  have sm: "saveMarkdown sample_runtime ?env ''/out'' ''plan'' ''# Topic'' =
            (Inr ''/out/plan.md'', [FsMkdir ''/out'', FsWriteFile ''/out/plan.md'' ''# Topic''])"
    by (simp add: saveMarkdown_def sample_runtime_def sample_tool_env_def endsWith_def Let_def)
  have llm: "callLLM ?env = Some (\<lambda>p. Inr ''# Topic'')" by (simp add: sample_tool_env_def)
  have rf: "render_fetch ?env = RenderRejected ''ECONNREFUSED''"
    by (simp add: sample_tool_env_def)
  have evs: "snd ?run =
      [CallLLM (MindmapPrompt ''we met''), FsMkdir ''/out'',
       FsWriteFile ''/out/plan.md'' ''# Topic'',
       Fetch ''http://localhost:3000/render'' [(''Content-Type'', ''application/json'')]
         (RenderJson ''# Topic'' 1920 1080 ''png'')]"
    by (simp add: meeting_mindmap_def rs sm llm rf or_else_def sample_tools_config_def
        render_step_def renderMarkmap_def RendererClient_def Let_def)
  then have h3: "\<exists>e\<in>set (snd ?run). is_fetch e" by simp
  from mindmap_renderer_failure [OF h1 h2 h3] obtain p md where
    a: "fst ?run = MindmapDone p None MarkdownOnly" and
    b: "filter is_write (snd ?run) = [FsWriteFile p md]" by blast
  from b evs have p: "p = ''/out/plan.md''" and md: "md = ''# Topic''" by simp_all
  from a p have a': "fst ?run = MindmapDone ''/out/plan.md'' None MarkdownOnly" by simp
  from b p md have b': "filter is_write (snd ?run) = [FsWriteFile ''/out/plan.md'' ''# Topic'']"
    by simp
  from h1 h2 h3 a' b' show ?thesis by (intro conjI) assumption+
qed

lemma saveMarkdown_no_llm: "CallLLM q \<notin> set (snd (saveMarkdown rt env od name md))"
  by (auto simp: saveMarkdown_def Let_def split: option.splits)

lemma fetch_not_read: "is_fetch ev \<Longrightarrow> \<not> is_read ev \<and> (\<forall>q. ev \<noteq> CallLLM q)"
  by (cases ev) simp_all

lemma render_step_events:
  "\<exists>more. snd (render_step rt config env input md p evs) = evs @ more \<and>
          filter is_read more = [] \<and> (\<forall>q. CallLLM q \<notin> set more)"
proof (cases "if render_image input \<noteq> Some False then renderer config else None")
  case None
  then show ?thesis by (simp add: render_step_def)
next
  case (Some rc)
  obtain res evs4 where r: "renderMarkmap rt (RendererClient rc) (render_fetch env) md
      \<lparr>width = None, height = None, format = None\<rparr> = (res, evs4)"
    by (cases "renderMarkmap rt (RendererClient rc) (render_fetch env) md
      \<lparr>width = None, height = None, format = None\<rparr>")
  from renderMarkmap_events [of rt "RendererClient rc" "render_fetch env" md
      "\<lparr>width = None, height = None, format = None\<rparr>"] r
  obtain ev where ev: "evs4 = [ev]" "is_fetch ev" by auto
  from ev(2) have nr: "\<not> is_read ev" "\<And>q. CallLLM q \<noteq> ev"
    using fetch_not_read by blast+
  show ?thesis
  proof (cases "if success res then imageData res else None")
    case None
    with Some r ev nr show ?thesis by (simp add: render_step_def)
  next
    case (Some data)
    note data = this
    show ?thesis
    proof (cases "tool_writeFile env (replace_first p ''.md'' ''.png'') data")
      case None
      with \<open>(if render_image input \<noteq> Some False then renderer config else None) = Some rc\<close>
        data r ev nr show ?thesis
        by (simp add: render_step_def Let_def)
    next
      case (Some c)
      with \<open>(if render_image input \<noteq> Some False then renderer config else None) = Some rc\<close>
        data r ev nr show ?thesis
        by (simp add: render_step_def Let_def)
    qed
  qed
qed

lemma summarize_events:
  "\<exists>rest. snd (meeting_summarize rt config env input) =
            snd (read_source env (source input)) @ rest \<and>
          filter is_read rest = [] \<and>
          (\<forall>c. CallLLM (SummaryPrompt c) \<in> set rest \<longrightarrow>
               fst (read_source env (source input)) = Inr c) \<and>
          (\<forall>c. callLLM env \<noteq> None \<longrightarrow> fst (read_source env (source input)) = Inr c \<longrightarrow>
               CallLLM (SummaryPrompt c) \<in> set rest)"
proof -
  obtain r1 evs1 where rs: "read_source env (source input) = (r1, evs1)"
    by (cases "read_source env (source input)")
  show ?thesis
  proof (cases r1)
    case (Inl e)
    with rs show ?thesis by (simp add: meeting_summarize_def)
  next
    case (Inr c)
    note content = this
    show ?thesis
    proof (cases "callLLM env")
      case None
      with rs content show ?thesis by (simp add: meeting_summarize_def)
    next
      case (Some llm)
      note llm = this
      show ?thesis
      proof (cases "llm (SummaryPrompt c)")
        case (Inl m)
        with rs content llm show ?thesis by (simp add: meeting_summarize_def)
      next
        case (Inr summary)
        let ?name = "or_else (output_name input) (generateOutputName env ''meeting'' ''_summary.md'')"
        obtain r3 evs3 where sm: "saveMarkdown rt env (outputDir config) ?name summary = (r3, evs3)"
          by (cases "saveMarkdown rt env (outputDir config) ?name summary")
        with saveMarkdown_events [of rt env "outputDir config" ?name summary]
          saveMarkdown_no_llm [of _ rt env "outputDir config" ?name summary]
        have e3: "filter is_read evs3 = []" "\<And>q. CallLLM q \<notin> set evs3" by simp_all
        from rs content llm Inr sm e3 show ?thesis
          by (cases r3) (simp_all add: meeting_summarize_def)
      qed
    qed
  qed
qed

lemma mindmap_events:
  "\<exists>rest. snd (meeting_mindmap rt config env input) =
            snd (read_source env (source input)) @ rest \<and>
          filter is_read rest = [] \<and>
          (\<forall>c. CallLLM (MindmapPrompt c) \<in> set rest \<longrightarrow>
               fst (read_source env (source input)) = Inr c) \<and>
          (\<forall>c. callLLM env \<noteq> None \<longrightarrow> fst (read_source env (source input)) = Inr c \<longrightarrow>
               CallLLM (MindmapPrompt c) \<in> set rest)"
proof -
  obtain r1 evs1 where rs: "read_source env (source input) = (r1, evs1)"
    by (cases "read_source env (source input)")
  show ?thesis
  proof (cases r1)
    case (Inl e)
    with rs show ?thesis by (simp add: meeting_mindmap_def)
  next
    case (Inr c)
    note content = this
    show ?thesis
    proof (cases "callLLM env")
      case None
      with rs content show ?thesis by (simp add: meeting_mindmap_def)
    next
      case (Some llm)
      note llm = this
      show ?thesis
      proof (cases "llm (MindmapPrompt c)")
        case (Inl m)
        with rs content llm show ?thesis by (simp add: meeting_mindmap_def)
      next
        case (Inr md)
        let ?name = "or_else (output_name input) (generateOutputName env ''mindmap'' ''.md'')"
        obtain r3 evs3 where sm: "saveMarkdown rt env (outputDir config) ?name md = (r3, evs3)"
          by (cases "saveMarkdown rt env (outputDir config) ?name md")
        with saveMarkdown_events [of rt env "outputDir config" ?name md]
          saveMarkdown_no_llm [of _ rt env "outputDir config" ?name md]
        have e3: "filter is_read evs3 = []" "\<And>q. CallLLM q \<notin> set evs3" by simp_all
        show ?thesis
        proof (cases r3)
          case (Inl e)
          with rs content llm Inr sm e3 show ?thesis by (simp add: meeting_mindmap_def)
        next
          case (Inr p)
          from render_step_events [of rt config env input md p
              "evs1 @ [CallLLM (MindmapPrompt c)] @ evs3"]
          obtain more where more:
            "snd (render_step rt config env input md p (evs1 @ [CallLLM (MindmapPrompt c)] @ evs3)) =
             (evs1 @ [CallLLM (MindmapPrompt c)] @ evs3) @ more"
            "filter is_read more = []" "\<And>q. CallLLM q \<notin> set more" by blast
          from rs content llm \<open>llm (MindmapPrompt c) = Inr md\<close> sm Inr e3 more show ?thesis
            by (simp add: meeting_mindmap_def)
        qed
      qed
    qed
  qed
qed

lemma read_source_names_file:
  "snd (read_source env src) = (if names_file src then [FsReadFile src] else [])"
  "\<not> names_file src \<Longrightarrow> fst (read_source env src) = Inr src"
  "names_file src \<Longrightarrow> fst (read_source env src) = Inr c \<Longrightarrow> tool_readFile env src = Inr c"
  by (auto simp: read_source_def names_file_def includes_str_char split: sum.splits)

lemma summarize_source:
  "filter is_read (snd (meeting_summarize rt config env input)) =
     (if names_file (source input) then [FsReadFile (source input)] else [])"
  "\<not> names_file (source input) \<Longrightarrow> CallLLM (SummaryPrompt c) \<in> set (snd (meeting_summarize rt config env input)) \<Longrightarrow>
     c = source input"
  "\<not> names_file (source input) \<Longrightarrow> callLLM env \<noteq> None \<Longrightarrow>
     CallLLM (SummaryPrompt (source input)) \<in> set (snd (meeting_summarize rt config env input))"
  "names_file (source input) \<Longrightarrow> CallLLM (SummaryPrompt c) \<in> set (snd (meeting_summarize rt config env input)) \<Longrightarrow>
     tool_readFile env (source input) = Inr c"
proof -
  from summarize_events [of rt config env input] obtain rest where rest:
    "snd (meeting_summarize rt config env input) = snd (read_source env (source input)) @ rest"
    "filter is_read rest = []"
    "\<And>c. CallLLM (SummaryPrompt c) \<in> set rest \<Longrightarrow> fst (read_source env (source input)) = Inr c"
    "\<And>c. callLLM env \<noteq> None \<Longrightarrow> fst (read_source env (source input)) = Inr c \<Longrightarrow>
          CallLLM (SummaryPrompt c) \<in> set rest"
    by blast
  show "filter is_read (snd (meeting_summarize rt config env input)) =
     (if names_file (source input) then [FsReadFile (source input)] else [])"
    by (simp add: rest(1,2) read_source_names_file(1))
  {
    assume n: "\<not> names_file (source input)"
      and c: "CallLLM (SummaryPrompt c) \<in> set (snd (meeting_summarize rt config env input))"
    from c n have "CallLLM (SummaryPrompt c) \<in> set rest"
      by (simp add: rest(1) read_source_names_file(1))
    then have "fst (read_source env (source input)) = Inr c" by (rule rest(3))
    with read_source_names_file(2) [OF n, of env] show "c = source input" by simp
  }
  {
    assume n: "\<not> names_file (source input)" and l: "callLLM env \<noteq> None"
    from rest(4) [OF l read_source_names_file(2) [OF n]]
    show "CallLLM (SummaryPrompt (source input)) \<in> set (snd (meeting_summarize rt config env input))"
      by (simp add: rest(1))
  }
  {
    assume n: "names_file (source input)"
      and c: "CallLLM (SummaryPrompt c) \<in> set (snd (meeting_summarize rt config env input))"
    from c n have "CallLLM (SummaryPrompt c) \<in> set rest"
      by (simp add: rest(1) read_source_names_file(1))
    then have "fst (read_source env (source input)) = Inr c" by (rule rest(3))
    with n show "tool_readFile env (source input) = Inr c"
      by (rule read_source_names_file(3))
  }
qed

lemma mindmap_source:
  "filter is_read (snd (meeting_mindmap rt config env input)) =
     (if names_file (source input) then [FsReadFile (source input)] else [])"
  "\<not> names_file (source input) \<Longrightarrow> CallLLM (MindmapPrompt c) \<in> set (snd (meeting_mindmap rt config env input)) \<Longrightarrow>
     c = source input"
  "\<not> names_file (source input) \<Longrightarrow> callLLM env \<noteq> None \<Longrightarrow>
     CallLLM (MindmapPrompt (source input)) \<in> set (snd (meeting_mindmap rt config env input))"
  "names_file (source input) \<Longrightarrow> CallLLM (MindmapPrompt c) \<in> set (snd (meeting_mindmap rt config env input)) \<Longrightarrow>
     tool_readFile env (source input) = Inr c"
proof -
  from mindmap_events [of rt config env input] obtain rest where rest:
    "snd (meeting_mindmap rt config env input) = snd (read_source env (source input)) @ rest"
    "filter is_read rest = []"
    "\<And>c. CallLLM (MindmapPrompt c) \<in> set rest \<Longrightarrow> fst (read_source env (source input)) = Inr c"
    "\<And>c. callLLM env \<noteq> None \<Longrightarrow> fst (read_source env (source input)) = Inr c \<Longrightarrow>
          CallLLM (MindmapPrompt c) \<in> set rest"
    by blast
  show "filter is_read (snd (meeting_mindmap rt config env input)) =
     (if names_file (source input) then [FsReadFile (source input)] else [])"
    by (simp add: rest(1,2) read_source_names_file(1))
  {
    assume n: "\<not> names_file (source input)"
      and c: "CallLLM (MindmapPrompt c) \<in> set (snd (meeting_mindmap rt config env input))"
    from c n have "CallLLM (MindmapPrompt c) \<in> set rest"
      by (simp add: rest(1) read_source_names_file(1))
    then have "fst (read_source env (source input)) = Inr c" by (rule rest(3))
    with read_source_names_file(2) [OF n, of env] show "c = source input" by simp
  }
  {
    assume n: "\<not> names_file (source input)" and l: "callLLM env \<noteq> None"
    from rest(4) [OF l read_source_names_file(2) [OF n]]
    show "CallLLM (MindmapPrompt (source input)) \<in> set (snd (meeting_mindmap rt config env input))"
      by (simp add: rest(1))
  }
  {
    assume n: "names_file (source input)"
      and c: "CallLLM (MindmapPrompt c) \<in> set (snd (meeting_mindmap rt config env input))"
    from c n have "CallLLM (MindmapPrompt c) \<in> set rest"
      by (simp add: rest(1) read_source_names_file(1))
    then have "fst (read_source env (source input)) = Inr c" by (rule rest(3))
    with n show "tool_readFile env (source input) = Inr c"
      by (rule read_source_names_file(3))
  }
qed

text \<open>
  C10. In \<^verbatim>\<open>meeting_summarize\<close> and in \<^verbatim>\<open>meeting_mindmap\<close> the source is read from the file
  system, as a path, exactly when it ends with \<^verbatim>\<open>.md\<close> or contains a slash: then the tool
  reads that file and nothing else, and the content in the prompt is what the file holds;
  otherwise the tool reads no file and the content in the prompt is the source string
  itself. So a text that contains a slash is always taken for a path.
\<close>

theorem source_read_as_path_iff:
  "filter is_read (snd (meeting_summarize rt config env sinput)) =
     (if names_file (source sinput) then [FsReadFile (source sinput)] else []) \<and>
   filter is_read (snd (meeting_mindmap rt config env minput)) =
     (if names_file (source minput) then [FsReadFile (source minput)] else []) \<and>
   (\<forall>c. CallLLM (SummaryPrompt c) \<in> set (snd (meeting_summarize rt config env sinput)) \<longrightarrow>
        (if names_file (source sinput) then tool_readFile env (source sinput) = Inr c
         else c = source sinput)) \<and>
   (\<forall>c. CallLLM (MindmapPrompt c) \<in> set (snd (meeting_mindmap rt config env minput)) \<longrightarrow>
        (if names_file (source minput) then tool_readFile env (source minput) = Inr c
         else c = source minput)) \<and>
   (\<not> names_file (source sinput) \<and> callLLM env \<noteq> None \<longrightarrow>
      CallLLM (SummaryPrompt (source sinput)) \<in> set (snd (meeting_summarize rt config env sinput))) \<and>
   (\<not> names_file (source minput) \<and> callLLM env \<noteq> None \<longrightarrow>
      CallLLM (MindmapPrompt (source minput)) \<in> set (snd (meeting_mindmap rt config env minput)))"
  using summarize_source [where rt = rt and config = config and env = env and input = sinput]
    mindmap_source [where rt = rt and config = config and env = env and input = minput]
  by auto

theorem source_read_as_path_iff_witness:
  "names_file ''pros/cons'' \<and> \<not> names_file ''we met'' \<and>
   callLLM (sample_tool_env (RenderRejected ''ECONNREFUSED'')) \<noteq> None \<and>
   filter is_read
     (snd (meeting_summarize sample_runtime sample_tools_config
            (sample_tool_env (RenderRejected ''ECONNREFUSED''))
            \<lparr>source = ''pros/cons'', output_name = None\<rparr>)) = [FsReadFile ''pros/cons''] \<and>
   fst (meeting_summarize sample_runtime sample_tools_config
          (sample_tool_env (RenderRejected ''ECONNREFUSED''))
          \<lparr>source = ''pros/cons'', output_name = None\<rparr>) = ToolFailed (FsError ''ENOENT'') \<and>
   filter is_read
     (snd (meeting_mindmap sample_runtime sample_tools_config
            (sample_tool_env (RenderRejected ''ECONNREFUSED''))
            \<lparr>source = ''we met'', output_name = Some ''plan'', render_image = Some False\<rparr>)) = [] \<and>
   CallLLM (MindmapPrompt ''we met'') \<in>
     set (snd (meeting_mindmap sample_runtime sample_tools_config
            (sample_tool_env (RenderRejected ''ECONNREFUSED''))
            \<lparr>source = ''we met'', output_name = Some ''plan'', render_image = Some False\<rparr>))"
proof -
  let ?env = "sample_tool_env (RenderRejected ''ECONNREFUSED'')"
  let ?sinput = "\<lparr>source = ''pros/cons'', output_name = None\<rparr>"
  let ?minput = "\<lparr>source = ''we met'', output_name = Some ''plan'', render_image = Some False\<rparr>"
  have n1: "names_file ''pros/cons''" by (simp add: names_file_def)
  have n2: "\<not> names_file ''we met''" by (simp add: names_file_def endsWith_def)
  have l: "callLLM ?env \<noteq> None" by (simp add: sample_tool_env_def)
  note t = source_read_as_path_iff [of sample_runtime sample_tools_config ?env ?sinput ?minput]
  from t [THEN conjunct1] n1
  have a: "filter is_read (snd (meeting_summarize sample_runtime sample_tools_config ?env ?sinput)) =
           [FsReadFile ''pros/cons'']" by simp
  have rd: "tool_readFile ?env ''pros/cons'' = Inl ''ENOENT''" by (simp add: sample_tool_env_def)
  have b: "fst (meeting_summarize sample_runtime sample_tools_config ?env ?sinput) =
           ToolFailed (FsError ''ENOENT'')"
    by (simp add: meeting_summarize_def read_source_def rd)
  from t [THEN conjunct2, THEN conjunct1] n2
  have c: "filter is_read (snd (meeting_mindmap sample_runtime sample_tools_config ?env ?minput)) = []"
    by simp
  from t [THEN conjunct2, THEN conjunct2, THEN conjunct2, THEN conjunct2, THEN conjunct2] n2 l
  have d: "CallLLM (MindmapPrompt ''we met'') \<in>
           set (snd (meeting_mindmap sample_runtime sample_tools_config ?env ?minput))"
    by simp
  from n1 n2 l a b c d show ?thesis by (intro conjI) assumption+
qed

subsection \<open>The model on sample inputs\<close>

text \<open>
  A status query as the client sends it, and one whole transcription: the upload answers with
  order \<^verbatim>\<open>abc123\<close>, two status queries find the order processing, the third finds it
  complete with three sentences, one of them blank.
\<close>

lemma sample_signature:
  "generateSignature sample_runtime sample_config
     [(''appId'', ''app''), (''accessKeyId'', ''''), (''timestamp'', ''1700000001''),
      (''nonce'', ''0001020304050607''), (''orderId'', ''abc123'')] =
   ''hmac(s3,appId=app&nonce=0001020304050607&orderId=abc123&timestamp=1700000001)''"
proof -
  have u: "utf16_units ''appId'' = [97, 112, 112, 73, 100]"
    "utf16_units ''timestamp'' = [116, 105, 109, 101, 115, 116, 97, 109, 112]"
    "utf16_units ''nonce'' = [110, 111, 110, 99, 101]"
    "utf16_units ''orderId'' = [111, 114, 100, 101, 114, 73, 100]"
    by (simp_all add: utf16_units_def code_units_def)
  have e: "encodeURIComponent sample_runtime = percent_encode" by (simp add: sample_runtime_def)
  have p: "percent_encode ''appId'' = ''appId''" "percent_encode ''app'' = ''app''"
    "percent_encode ''timestamp'' = ''timestamp''" "percent_encode ''1700000001'' = ''1700000001''"
    "percent_encode ''nonce'' = ''nonce''"
    "percent_encode ''0001020304050607'' = ''0001020304050607''"
    "percent_encode ''orderId'' = ''orderId''" "percent_encode ''abc123'' = ''abc123''"
    by (simp_all add: percent_encode_def uri_unreserved_def)
  have s: "accessKeySecret sample_config = Some ''s3''" by (simp add: sample_config_def)
  have h: "hmac_sha1_base64 sample_runtime = (\<lambda>key data. ''hmac('' @ key @ '','' @ data @ '')'')"
    by (simp add: sample_runtime_def)
  show ?thesis
    by (simp add: generateSignature_def s truthy_def or_else_def object_keys_def param_get_def
        array_sort_def sort_rank_def u encode_pair_def e p h)
qed

lemma sample_query:
  "queryString sample_runtime
     [(''appId'', ''app''), (''accessKeyId'', ''''), (''timestamp'', ''1700000001''),
      (''nonce'', ''0001020304050607''), (''orderId'', ''abc123'')] =
   ''appId=app&accessKeyId=&timestamp=1700000001&nonce=0001020304050607&orderId=abc123''"
  by code_simp

lemma sample_poll_params:
  "poll_params sample_config (sample_env answer aborted) ''abc123'' 0 =
     [(''appId'', ''app''), (''accessKeyId'', ''''), (''timestamp'', ''1700000001''),
      (''nonce'', ''0001020304050607''), (''orderId'', ''abc123'')]"
  by (simp add: poll_params_def sample_config_def sample_env_def or_else_def
      toString_nat.simps toString_hex_def hex_lower_def)

lemma poll_request_sample:
  "poll_request sample_runtime sample_config (sample_env answer aborted) ''abc123'' 0 =
   Fetch ''http://127.0.0.1:18001/v1/getResult?appId=app&accessKeyId=&timestamp=1700000001&nonce=0001020304050607&orderId=abc123''
     [(''Content-Type'', ''application/json''),
      (''signature'', ''hmac(s3,appId=app&nonce=0001020304050607&orderId=abc123&timestamp=1700000001)'')]
     EmptyJson"
proof -
  have url: "serviceUrl sample_config = ''http://127.0.0.1:18001''"
    by (simp add: sample_config_def)
  show ?thesis
    by (simp add: poll_request_def Let_def sample_poll_params sample_signature sample_query url)
qed

lemma transcribe_sample:
  "fst (transcribe sample_runtime sample_config (sample_env two_then_done (\<lambda>i. False))
          ''/a/talk.WAV'') =
     Inr \<lparr>asr_text = ''S0: hello'' @ [CHR 0x0A] @ ''S0: world'',
          asr_orderId = Some ''abc123'',
          asr_segments = Some
            [\<lparr>speaker = ''S0'', segment_text = ''hello'', startTime = Some 0, endTime = Some 900\<rparr>,
             \<lparr>speaker = ''S0'', segment_text = ''world'', startTime = Some 1000,
              endTime = None\<rparr>]\<rparr> \<and>
   map is_fetch (snd (transcribe sample_runtime sample_config
                       (sample_env two_then_done (\<lambda>i. False)) ''/a/talk.WAV'')) =
     [False, False, False, True, True, False, True, False, True]"
proof -
  let ?env = "sample_env two_then_done (\<lambda>i. False)"
  let ?p = "''/a/talk.WAV''"
  have st: "fs_stat ?env ?p = Stats True 4" by (simp add: sample_env_def)
  have rd: "fs_readFile ?env ?p = Inr ''RIFF''" by (simp add: sample_env_def)
  have up: "upload_fetch ?env = status_response JUndefined []" by (simp add: sample_env_def)
  have ext: "toLowerCase sample_runtime (extname sample_runtime ?p) = ''.wav''"
    by code_simp
  have chk: "checkAudioFile sample_runtime ?env ?p = (Inr (), [FsStat ?p])"
    by (simp add: checkAudioFile_def st ext Let_def)
  have upl: "fst (uploadAudio sample_runtime sample_config ?env ?p) =
               Inr (sample_payload JUndefined []) \<and>
             map is_fetch (snd (uploadAudio sample_runtime sample_config ?env ?p)) =
               [False, False, True]"
    by (simp add: uploadAudio_def st rd up Let_def status_response_def sample_payload_def)
  have oid: "content (sample_payload JUndefined []) \<noteq> None \<and>
             (case content (sample_payload JUndefined []) of None \<Rightarrow> None | Some c \<Rightarrow> orderId c) =
             Some ''abc123''"
    by (simp add: sample_payload_def)
  have p: "\<And>j. 0 \<le> j \<Longrightarrow> j < 0 + 2 \<Longrightarrow> carries_status (poll_fetch ?env j) (JNumber 3)"
    by (simp add: sample_env_def two_then_done_def status_response_def sample_payload_def
        carries_status_def order_status_def)
  have c: "poll_interpret (poll_fetch ?env 2) = Complete (sample_payload (JNumber 4) sample_sentences)"
    by (simp add: sample_env_def two_then_done_def status_response_def sample_payload_def
        poll_interpret_def order_status_def)
  have last: "pollResult_loop sample_runtime sample_config ?env ''abc123'' 100 2 =
        (Inr (sample_payload (JNumber 4) sample_sentences),
         [poll_request sample_runtime sample_config ?env ''abc123'' 2])"
    by (rule pollResult_loop_complete [OF _ c]) simp
  have "pollResult_loop sample_runtime sample_config ?env ''abc123'' 100 0 =
        (fst (pollResult_loop sample_runtime sample_config ?env ''abc123'' 100 (0 + 2)),
         processing_trace sample_runtime sample_config ?env ''abc123'' 0 2 @
         snd (pollResult_loop sample_runtime sample_config ?env ''abc123'' 100 (0 + 2)))"
    by (rule pollResult_loop_processing [OF p]) simp_all
  then have poll: "pollResult sample_runtime sample_config ?env ''abc123'' None =
        (Inr (sample_payload (JNumber 4) sample_sentences),
         processing_trace sample_runtime sample_config ?env ''abc123'' 0 2 @
         [poll_request sample_runtime sample_config ?env ''abc123'' 2])"
    by (simp only: add_0 last fst_conv snd_conv pollResult_def option.case)
  have t: "trim sample_runtime = ascii_trim" by (simp add: sample_runtime_def)
  have a: "ascii_trim ''hello'' = ''hello''" "ascii_trim ''   '' = ''''"
    "ascii_trim '' world '' = ''world''"
    by (simp_all add: ascii_trim_def ascii_space_def)
  have parse: "parseTranscript sample_runtime (sample_payload (JNumber 4) sample_sentences) =
     (''S0: hello'' @ [CHR 0x0A] @ ''S0: world'',
      [\<lparr>speaker = ''S0'', segment_text = ''hello'', startTime = Some 0, endTime = Some 900\<rparr>,
       \<lparr>speaker = ''S0'', segment_text = ''world'', startTime = Some 1000, endTime = None\<rparr>])"
    by (simp add: parseTranscript_def parse_loop_filter_map result_sentences_def
        sample_payload_def sample_sentences_def retained_def
        text_or_empty_def line_of_def segment_of_def speaker_label_def t a)
  obtain r2 evs2 where u: "uploadAudio sample_runtime sample_config ?env ?p = (r2, evs2)"
    by (cases "uploadAudio sample_runtime sample_config ?env ?p")
  with upl have r2: "r2 = Inr (sample_payload JUndefined [])"
    and e2: "map is_fetch evs2 = [False, False, True]" by simp_all
  have tr: "map is_fetch (processing_trace sample_runtime sample_config ?env ''abc123'' 0 2) =
            [True, False, True, False]"
    by (simp add: processing_trace_def numeral_2_eq_2)
  show ?thesis
    by (simp add: transcribe_def chk u r2 e2 oid truthy_def or_else_def poll parse tr Let_def)
qed

end
